theory Spec2Isabelle
  imports Complex_Main
begin

section \<open>VegaWrapper: the data model\<close>

text \<open>
  A shallow embedding of \<^verbatim>\<open>src/VegaWrapper.js\<close>. JavaScript strings are represented
  by their UTF-8 bytes (\<open>string\<close>); every test the source makes on a string (a literal
  prefix, a character class of ASCII characters, the first or the last character) reads
  the same on the bytes. JavaScript objects used as dictionaries are association lists
  with distinct keys and string values (the query, the headers) or maps (the
  configuration), with no inherited property; \<^verbatim>\<open>undefined\<close> is \<open>None\<close>.
  A thrown exception is the \<open>Inl\<close> of a sum; the wrapper's mutable field
  \<^verbatim>\<open>validators\<close> is threaded through every function that may write it.
\<close>

subsection \<open>Numbers and values of the runtime\<close>

text \<open>A Number: NaN, the infinities, or a finite value (both zeros are \<open>Fin 0\<close>).\<close>

datatype jsnumber = NaN | NegInf | Fin rat | PosInf

fun js_lt :: "jsnumber \<Rightarrow> jsnumber \<Rightarrow> bool" where
  "js_lt NaN _ = False"
| "js_lt _ NaN = False"
| "js_lt (Fin a) (Fin b) = (a < b)"
| "js_lt NegInf NegInf = False"
| "js_lt NegInf _ = True"
| "js_lt _ NegInf = False"
| "js_lt PosInf _ = False"
| "js_lt _ PosInf = True"

text \<open>A JavaScript value as \<^verbatim>\<open>JSON.parse\<close> builds it, with \<^verbatim>\<open>undefined\<close> added.\<close>

datatype jsval =
    Undefined
  | Null
  | Bool bool
  | Num jsnumber
  | Str string
  | Arr "jsval list"
  | Obj "(string \<times> jsval) list"

text \<open>ToBoolean: what \<^verbatim>\<open>if (v)\<close> tests.\<close>

fun truthy :: "jsval \<Rightarrow> bool" where
  "truthy Undefined = False"
| "truthy Null = False"
| "truthy (Bool b) = b"
| "truthy (Num n) = (n \<noteq> NaN \<and> n \<noteq> Fin 0)"
| "truthy (Str s) = (s \<noteq> [])"
| "truthy (Arr _) = True"
| "truthy (Obj _) = True"

subsection \<open>Errors\<close>

text \<open>One constructor for each \<^verbatim>\<open>throw\<close> of the source, and for each exception of the runtime.\<close>

datatype error =
    HostNotWhitelisted string
      \<comment> \<open>'URL hostname is not whitelisted: ' + opt.url\<close>
  | WikiPrefixRequired
      \<comment> \<open>'wikititle: http(s) links must begin with /wiki/ prefix'\<close>
  | QueryNotAllowed
      \<comment> \<open>'wikititle: query parameters are not allowed'\<close>
  | InvalidTitle string
      \<comment> \<open>tag + ': invalid title', the tag being 'wikititle', 'wikiraw' or urlParts.protocol\<close>
  | OpenOnlyWikititle
      \<comment> \<open>'"open()" action only allows links with wikititle protocol, ...'\<close>
  | UntrustedProtocol
      \<comment> \<open>'HTTP and HTTPS protocols are not supported for untrusted graphs. ...'\<close>
  | RestPrefixRequired
      \<comment> \<open>'wikirest: protocol must begin with the /api/ prefix'\<close>
  | ProtocolDisabled string string
      \<comment> \<open>protocol + ': protocol is disabled: ' + url\<close>
  | HostNotAllowed string string
      \<comment> \<open>protocol + ': URL must either be relative (...), or use one of the allowed hosts: ' + url\<close>
  | SparqlMissingQuery string
      \<comment> \<open>'wikidatasparql: missing query parameter in: ' + opt.url\<close>
  | MissingIdsOrQuery string string
      \<comment> \<open>opt.graphProtocol + ' missing ids or query parameter in: ' + opt.url\<close>
  | MissingRequiredParameters
      \<comment> \<open>'mapsnapshot: missing required parameters'\<close>
  | ParameterNotSet string
      \<comment> \<open>'mapsnapshot: parameter ' + name + ' is not set'\<close>
  | ParameterNotNumber string
      \<comment> \<open>'mapsnapshot: parameter ' + name + ' is not a number'\<close>
  | ParameterNotValid string
      \<comment> \<open>'mapsnapshot: parameter ' + name + ' is not valid'\<close>
  | InvalidStyle
      \<comment> \<open>'mapsnapshot: if style is given, it must be letters/numbers/dash/underscores only'\<close>
  | UnknownProtocol string
      \<comment> \<open>'Unknown protocol ' + opt.url\<close>
  | ApiError string
      \<comment> \<open>'API error: ' + JSON.stringify(data.error)\<close>
  | PostProcessingError string
      \<comment> \<open>an error of one of the unwrapping steps after the API envelope\<close>
  | TransportError string
      \<comment> \<open>an error the fetch handed to the callback\<close>
  | TypeError
      \<comment> \<open>the runtime's: a property read from undefined or null\<close>
  | URIError
      \<comment> \<open>the runtime's: decodeURIComponent or encodeURIComponent refused its argument\<close>
  | SyntaxError
      \<comment> \<open>the runtime's: JSON.parse refused its argument\<close>

subsection \<open>Request descriptor and URL parts\<close>

type_synonym dict = "(string \<times> string) list"

text \<open>
  The parts the URL parser returns and \<^verbatim>\<open>sanitizeUrl\<close> rewrites. A \<^verbatim>\<open>protocol\<close>
  that is \<^verbatim>\<open>undefined\<close>, \<^verbatim>\<open>null\<close> or empty is the empty string (all three are
  falsy, and line 137 is the only place that reads one). The \<^verbatim>\<open>host\<close> is \<open>None\<close> when
  it is \<^verbatim>\<open>undefined\<close>, which \<^verbatim>\<open>domains[0]\<close> yields on an empty list. The \<^verbatim>\<open>query\<close>
  is \<open>None\<close> when the parser returned no query object; otherwise it lists the own
  properties of that object, and \<open>queryProto\<close> tells whether the object inherits from
  \<^verbatim>\<open>Object.prototype\<close> (an object literal does; an object made with
  \<^verbatim>\<open>Object.create(null)\<close>, as some parsers of query strings make, does not).
\<close>

record urlParts =
  host :: "string option"
  protocol :: string
  pathname :: string
  query :: "dict option"
  queryProto :: bool
  isRelativeHost :: bool

text \<open>
  The \<^verbatim>\<open>opt\<close> object of the loader; \<^verbatim>\<open>graphProtocol\<close>, \<^verbatim>\<open>addCorsOrigin\<close> and
  \<^verbatim>\<open>headers\<close> are the fields \<^verbatim>\<open>sanitizeUrl\<close> adds.
\<close>

record opt =
  url :: string
  type :: string
  graphProtocol :: "string option"
  addCorsOrigin :: bool
  headers :: "dict option"

text \<open>The object \<^verbatim>\<open>sanitizeHost\<close> returns.\<close>

record sanitizedHost =
  sh_host :: "string option"
  sh_protocol :: string

subsection \<open>The runtime and the required modules\<close>

text \<open>
  The built-in functions of ECMAScript that the source calls, and the matcher of the
  module \<^verbatim>\<open>domain-validator\<close> it requires, are parameters: every theorem holds for
  whatever they compute. \<open>None\<close> stands for the exception the built-in throws.
  The numbers \<^verbatim>\<open>parseInt\<close> and \<^verbatim>\<open>parseFloat\<close> return are compared with the bounds
  as they come: how a decimal numeral is rounded to a Number is left to the runtime.
\<close>

record builtins =
  decodeURIComponent :: "string \<Rightarrow> string option"
  encodeURIComponent :: "string \<Rightarrow> string option"
  trim :: "string \<Rightarrow> string"
  parseInt :: "string \<Rightarrow> jsnumber"
  parseFloat :: "string \<Rightarrow> jsnumber"
  JSON_parse :: "string \<Rightarrow> jsval option"
  JSON_stringify :: "jsval \<Rightarrow> string"
  makeValidator :: "string list \<Rightarrow> bool \<Rightarrow> string \<Rightarrow> bool"
    \<comment> \<open>require('domain-validator'): the matcher's \<^verbatim>\<open>test\<close>, for a domain list and a flag\<close>

subsection \<open>The wrapper object\<close>

record VegaWrapper =
  isTrusted :: bool
  domains :: "string \<rightharpoonup> string list"
  domainMap :: "string \<rightharpoonup> string"
    \<comment> \<open>an absent \<^verbatim>\<open>domainMap\<close> is the empty map\<close>
  objExtender :: "dict option \<Rightarrow> dict \<Rightarrow> dict option"
  parseUrl :: "opt \<Rightarrow> urlParts"
  formatUrl :: "urlParts \<Rightarrow> opt \<Rightarrow> string"
  validators :: "string \<rightharpoonup> (string \<Rightarrow> bool)"

text \<open>
  Lines 24-33: the constructor stores its arguments and starts with no matcher. (It also
  installs the loader, which runs \<^verbatim>\<open>sanitizeUrl\<close>, the transport and \<^verbatim>\<open>dataParser\<close>
  in turn; the transport is outside this development, and the logger is represented by
  the list of the messages it receives.)
\<close>

definition newVegaWrapper ::
  "bool \<Rightarrow> (string \<rightharpoonup> string list) \<Rightarrow> (string \<rightharpoonup> string) \<Rightarrow> (dict option \<Rightarrow> dict \<Rightarrow> dict option)
     \<Rightarrow> (opt \<Rightarrow> urlParts) \<Rightarrow> (urlParts \<Rightarrow> opt \<Rightarrow> string) \<Rightarrow> VegaWrapper" where
  "newVegaWrapper trusted doms dmap extender parser formatter =
     \<lparr>isTrusted = trusted, domains = doms, domainMap = dmap, objExtender = extender,
      parseUrl = parser, formatUrl = formatter, validators = Map.empty\<rparr>"

section \<open>Strings and regular expressions of the source\<close>

definition starts_with :: "string \<Rightarrow> string \<Rightarrow> bool" where
  "starts_with p s = (take (length p) s = p)"

definition is_lower :: "char \<Rightarrow> bool" where
  "is_lower c = (c \<in> set ''abcdefghijklmnopqrstuvwxyz'')"

definition is_digit :: "char \<Rightarrow> bool" where
  "is_digit c = (c \<in> set ''0123456789'')"

text \<open>ToString of a host: a regular expression's \<^verbatim>\<open>test\<close> and a property read convert their argument.\<close>

definition toStr :: "string option \<Rightarrow> string" where
  "toStr h = (case h of None \<Rightarrow> ''undefined'' | Some s \<Rightarrow> s)"

text \<open>Line 126: \<^verbatim>\<open>opt.url.replace(/^([a-z]+:)https?:\/\//, '$1//')\<close>.\<close>

definition repairUrl :: "string \<Rightarrow> string" where
  "repairUrl u =
     (let sch = takeWhile is_lower u; rest = dropWhile is_lower u
      in if sch \<noteq> [] \<and> starts_with '':https://'' rest then sch @ ''://'' @ drop 9 rest
         else if sch \<noteq> [] \<and> starts_with '':http://'' rest then sch @ ''://'' @ drop 8 rest
         else u)"

text \<open>
  The line terminators, which \<^verbatim>\<open>.\<close> does not match: LF, CR, U+2028 and U+2029
  (\<open>E2 80 A8\<close> and \<open>E2 80 A9\<close> in UTF-8).
\<close>

fun has_line_terminator :: "string \<Rightarrow> bool" where
  "has_line_terminator [] = False"
| "has_line_terminator (c # cs) =
     (c = CHR 0x0A \<or> c = CHR 0x0D
      \<or> (c = CHR 0xE2 \<and> (starts_with [CHR 0x80, CHR 0xA8] cs \<or> starts_with [CHR 0x80, CHR 0xA9] cs))
      \<or> has_line_terminator cs)"

text \<open>\<^verbatim>\<open>/^\/wiki\/.+$/\<close>\<close>

definition re_wiki_prefix :: "string \<Rightarrow> bool" where
  "re_wiki_prefix s =
     (starts_with ''/wiki/'' s \<and> drop 6 s \<noteq> [] \<and> \<not> has_line_terminator (drop 6 s))"

text \<open>\<^verbatim>\<open>/^\/[^|]+$/\<close>\<close>

definition re_title :: "string \<Rightarrow> bool" where
  "re_title s = (case s of [] \<Rightarrow> False | c # t \<Rightarrow> c = CHR ''/'' \<and> t \<noteq> [] \<and> CHR ''|'' \<notin> set t)"

text \<open>\<^verbatim>\<open>/^\/api\//\<close>\<close>

definition re_api_prefix :: "string \<Rightarrow> bool" where
  "re_api_prefix s = starts_with ''/api/'' s"

text \<open>\<^verbatim>\<open>/^-?[0-9]+$/\<close>\<close>

definition re_int :: "string \<Rightarrow> bool" where
  "re_int s =
     (let t = (case s of [] \<Rightarrow> [] | c # r \<Rightarrow> if c = CHR ''-'' then r else s)
      in t \<noteq> [] \<and> (\<forall>c \<in> set t. is_digit c))"

text \<open>\<^verbatim>\<open>/^-?[0-9]+\.?[0-9]*$/\<close>\<close>

definition re_float :: "string \<Rightarrow> bool" where
  "re_float s =
     (let t = (case s of [] \<Rightarrow> [] | c # r \<Rightarrow> if c = CHR ''-'' then r else s);
          ds = takeWhile is_digit t; rest = dropWhile is_digit t
      in ds \<noteq> [] \<and>
         (case rest of [] \<Rightarrow> True | c # r \<Rightarrow> c = CHR ''.'' \<and> (\<forall>d \<in> set r. is_digit d)))"

text \<open>\<^verbatim>\<open>/^[-_0-9a-z]$/\<close>: one character of the class, and nothing else.\<close>

definition re_style :: "string \<Rightarrow> bool" where
  "re_style s =
     (case s of [c] \<Rightarrow> c = CHR ''-'' \<or> c = CHR ''_'' \<or> is_digit c \<or> is_lower c | _ \<Rightarrow> False)"

text \<open>\<^verbatim>\<open>s.replace(a, b)\<close> with a string pattern of one character: the first occurrence only.\<close>

fun replaceFirst :: "char \<Rightarrow> char \<Rightarrow> string \<Rightarrow> string" where
  "replaceFirst a b [] = []"
| "replaceFirst a b (c # cs) = (if c = a then b # cs else c # replaceFirst a b cs)"

section \<open>Host Allowlist Validator\<close>

text \<open>Lines 114-117.\<close>

definition removeColon :: "string \<Rightarrow> string" where
  "removeColon p = (if p \<noteq> [] \<and> last p = CHR '':'' then butlast p else p)"

text \<open>Lines 110-112: the configured lists are arrays, which are truthy also when empty.\<close>

definition getProtocolDomains :: "VegaWrapper \<Rightarrow> string \<Rightarrow> string list option" where
  "getProtocolDomains self p =
     (case domains self p of Some ds \<Rightarrow> Some ds | None \<Rightarrow> domains self (removeColon p))"

text \<open>Lines 91-101. The matcher is built on the first use of a protocol and kept.\<close>

definition testHost ::
  "builtins \<Rightarrow> VegaWrapper \<Rightarrow> string \<Rightarrow> string option \<Rightarrow> bool \<times> VegaWrapper" where
  "testHost B self p h =
     (case validators self p of
        Some v \<Rightarrow> (v (toStr h), self)
      | None \<Rightarrow>
          (case getProtocolDomains self p of
             Some ds \<Rightarrow>
               (let v = makeValidator B ds (p = ''https:'' \<or> p = ''http:'')
                in (v (toStr h), self\<lparr>validators := (validators self)(p \<mapsto> v)\<rparr>))
           | None \<Rightarrow> (False, self)))"

text \<open>Lines 73-83. A renamed host that is the empty string is falsy: the host is kept.\<close>

definition sanitizeHost ::
  "builtins \<Rightarrow> VegaWrapper \<Rightarrow> string option \<Rightarrow> sanitizedHost option \<times> VegaWrapper" where
  "sanitizeHost B self h0 =
     (let h = (case domainMap self (toStr h0) of
                 Some m \<Rightarrow> if m \<noteq> [] then Some m else h0
               | None \<Rightarrow> h0);
          (ok, self1) = testHost B self ''https:'' h
      in if ok then (Some \<lparr>sh_host = h, sh_protocol = ''https:''\<rparr>, self1)
         else (let (ok2, self2) = testHost B self1 ''http:'' h
               in if ok2 then (Some \<lparr>sh_host = h, sh_protocol = ''http:''\<rparr>, self2)
                  else (None, self2)))"

section \<open>External-service resolver\<close>

text \<open>
  Lines 358-373. The override is a literal of the caller when it is given. On a relative
  host the first configured domain becomes the host (\<^verbatim>\<open>undefined\<close> when the list is
  empty), and reading \<^verbatim>\<open>.protocol\<close> of a failed \<^verbatim>\<open>sanitizeHost\<close> is a TypeError.
\<close>

definition validateExternalService ::
  "builtins \<Rightarrow> VegaWrapper \<Rightarrow> urlParts \<Rightarrow> sanitizedHost \<Rightarrow> string \<Rightarrow> string option
     \<Rightarrow> (error + urlParts) \<times> VegaWrapper" where
  "validateExternalService B self u sh theUrl protocolOverride =
     (let p = (case protocolOverride of Some po \<Rightarrow> po | None \<Rightarrow> protocol u)
      in case getProtocolDomains self p of
           None \<Rightarrow> (Inl (ProtocolDisabled p theUrl), self)
         | Some ds \<Rightarrow>
             (if isRelativeHost u then
                (let h = (case ds of [] \<Rightarrow> None | d # _ \<Rightarrow> Some d);
                     (r, self1) = sanitizeHost B self h
                 in case r of
                      None \<Rightarrow> (Inl TypeError, self1)
                    | Some s \<Rightarrow>
                        (let (ok, self2) = testHost B self1 p h
                         in if ok then (Inr (u\<lparr>host := h, protocol := sh_protocol s\<rparr>), self2)
                            else (Inl (HostNotAllowed p theUrl), self2)))
              else
                (let (ok, self1) = testHost B self p (host u)
                 in if ok then (Inr (u\<lparr>protocol := sh_protocol sh\<rparr>), self1)
                    else (Inl (HostNotAllowed p theUrl), self1))))"

section \<open>Protocol translator\<close>

subsection \<open>Parameters of a map snapshot\<close>

text \<open>
  Line 344 calls the method \<^verbatim>\<open>hasOwnProperty\<close> of the query object. The call is a
  TypeError when the object has an own property of that name (a parameter
  \<^verbatim>\<open>hasOwnProperty\<close> of the request, whose value is a string and not a function), and
  when the object does not inherit from \<^verbatim>\<open>Object.prototype\<close>.
\<close>

definition hasOwnProperty :: "bool \<Rightarrow> dict \<Rightarrow> string \<Rightarrow> error + bool" where
  "hasOwnProperty inherits obj name =
     (case map_of obj ''hasOwnProperty'' of
        Some _ \<Rightarrow> Inl TypeError
      | None \<Rightarrow> if \<not> inherits then Inl TypeError else Inr (map_of obj name \<noteq> None))"

text \<open>
  Lines 343-356. The bounds are integer literals. The value \<^verbatim>\<open>validate\<close> returns is
  the parsed number; its caller drops it. The first argument tells whether the object
  inherits from \<^verbatim>\<open>Object.prototype\<close>.
\<close>

definition validate ::
  "builtins \<Rightarrow> bool \<Rightarrow> dict \<Rightarrow> string \<Rightarrow> int \<Rightarrow> int \<Rightarrow> bool \<Rightarrow> error + jsnumber" where
  "validate B inherits obj name mn mx isFloat =
     (case hasOwnProperty inherits obj name of
        Inl e \<Rightarrow> Inl e
      | Inr present \<Rightarrow>
          if \<not> present then Inl (ParameterNotSet name)
          else (let v = toStr (map_of obj name)
                in if \<not> (if isFloat then re_float v else re_int v)
                   then Inl (ParameterNotNumber name)
                   else (let n = (if isFloat then parseFloat B v else parseInt B v)
                         in if js_lt n (Fin (of_int mn)) \<or> js_lt (Fin (of_int mx)) n
                            then Inl (ParameterNotValid name)
                            else Inr n)))"

text \<open>Lines 322-329: the five calls in their order, then the test of the style.\<close>

definition validateSnapshot :: "builtins \<Rightarrow> bool \<Rightarrow> dict \<Rightarrow> error + unit" where
  "validateSnapshot B inherits q =
     (case validate B inherits q ''width'' 1 4096 False of Inl e \<Rightarrow> Inl e | Inr _ \<Rightarrow>
      (case validate B inherits q ''height'' 1 4096 False of Inl e \<Rightarrow> Inl e | Inr _ \<Rightarrow>
       (case validate B inherits q ''zoom'' 0 22 False of Inl e \<Rightarrow> Inl e | Inr _ \<Rightarrow>
        (case validate B inherits q ''lat'' (- 90) 90 True of Inl e \<Rightarrow> Inl e | Inr _ \<Rightarrow>
         (case validate B inherits q ''lon'' (- 180) 180 True of Inl e \<Rightarrow> Inl e | Inr _ \<Rightarrow>
          (case map_of q ''style'' of
             None \<Rightarrow> Inr ()
           | Some s \<Rightarrow> if s \<noteq> [] \<and> \<not> re_style s then Inl InvalidStyle else Inr ()))))))"

text \<open>Lines 330-331. A property that is not set concatenates as \<^verbatim>\<open>undefined\<close>.\<close>

definition snapshotPath :: "dict \<Rightarrow> string" where
  "snapshotPath q =
     ''/img/''
     @ (case map_of q ''style'' of None \<Rightarrow> ''osm-intl'' | Some s \<Rightarrow> if s \<noteq> [] then s else ''osm-intl'')
     @ '','' @ toStr (map_of q ''zoom'') @ '','' @ toStr (map_of q ''lat'')
     @ '','' @ toStr (map_of q ''lon'') @ '','' @ toStr (map_of q ''width'')
     @ ''x'' @ toStr (map_of q ''height'') @ ''@2x.png''"

subsection \<open>The "open" action\<close>

text \<open>
  Lines 147-183. The pathname is decoded and trimmed before the protocol is looked at;
  the cases \<^verbatim>\<open>http:\<close> and \<^verbatim>\<open>https:\<close> fall through to \<^verbatim>\<open>wikititle:\<close>.
  \<^verbatim>\<open>Object.keys\<close> of a query that is not there is a TypeError.
\<close>

definition openTitle ::
  "builtins \<Rightarrow> sanitizedHost \<Rightarrow> urlParts \<Rightarrow> opt \<Rightarrow> string \<Rightarrow> error + urlParts \<times> opt" where
  "openTitle B sh u opt decodedPathname =
     (case query u of
        None \<Rightarrow> Inl TypeError
      | Some q \<Rightarrow>
          if q \<noteq> [] then Inl QueryNotAllowed
          else if \<not> re_title decodedPathname then Inl (InvalidTitle ''wikititle'')
          else (case encodeURIComponent B (replaceFirst CHR '' '' CHR ''_'' (drop 1 decodedPathname)) of
                  None \<Rightarrow> Inl URIError
                | Some e \<Rightarrow> Inr (u\<lparr>pathname := ''/wiki/'' @ e, protocol := sh_protocol sh\<rparr>, opt)))"

definition sanitizeOpen ::
  "builtins \<Rightarrow> bool \<Rightarrow> sanitizedHost \<Rightarrow> urlParts \<Rightarrow> opt \<Rightarrow> error + urlParts \<times> opt" where
  "sanitizeOpen B isRelativeProtocol sh u opt =
     (case decodeURIComponent B (pathname u) of
        None \<Rightarrow> Inl URIError
      | Some d \<Rightarrow>
          (let decodedPathname = trim B d
           in if protocol u = ''http:'' \<or> protocol u = ''https:'' then
                (if \<not> isRelativeProtocol then
                   (if \<not> re_wiki_prefix decodedPathname then Inl WikiPrefixRequired
                    else openTitle B sh u (opt\<lparr>graphProtocol := Some ''wikititle''\<rparr>)
                           (drop 5 decodedPathname))
                 else openTitle B sh u (opt\<lparr>graphProtocol := Some ''wikititle''\<rparr>) decodedPathname)
              else if protocol u = ''wikititle:'' then openTitle B sh u opt decodedPathname
              else Inl OpenOnlyWikititle))"

subsection \<open>The normal fetch\<close>

text \<open>
  Lines 186-337: the \<^verbatim>\<open>switch\<close> on the protocol the request declared. The record
  \<open>opt\<close> comes with \<^verbatim>\<open>graphProtocol\<close> set (line 145), which the cases of
  \<^verbatim>\<open>geoshape:\<close> and \<^verbatim>\<open>geoline:\<close> read after the resolver has replaced the protocol
  of the parts. A query that the source writes as an object literal inherits from
  \<^verbatim>\<open>Object.prototype\<close>.
\<close>

definition sanitizeFetch ::
  "builtins \<Rightarrow> VegaWrapper \<Rightarrow> sanitizedHost \<Rightarrow> urlParts \<Rightarrow> opt
     \<Rightarrow> (error + urlParts \<times> opt) \<times> VegaWrapper" where
  "sanitizeFetch B self sh u opt =
     (let p = protocol u in
      if p = ''http:'' \<or> p = ''https:'' then
        (if \<not> isTrusted self then (Inl UntrustedProtocol, self)
         else (Inr (u, opt), self))
      else if p = ''wikiapi:'' then
        (Inr (u\<lparr>query := objExtender self (query u) [(''format'', ''json''), (''formatversion'', ''2'')],
                 pathname := ''/w/api.php'',
                 protocol := sh_protocol sh\<rparr>,
              opt\<lparr>addCorsOrigin := True\<rparr>), self)
      else if p = ''wikirest:'' then
        (if \<not> re_api_prefix (pathname u) then (Inl RestPrefixRequired, self)
         else (Inr (u\<lparr>protocol := sh_protocol sh\<rparr>, opt), self))
      else if p = ''wikiraw:'' then
        (case decodeURIComponent B (pathname u) of
           None \<Rightarrow> (Inl URIError, self)
         | Some d \<Rightarrow>
             if \<not> re_title d then (Inl (InvalidTitle ''wikiraw''), self)
             else (Inr (u\<lparr>query := Some [(''format'', ''json''), (''formatversion'', ''2''),
                                          (''action'', ''query''), (''prop'', ''revisions''),
                                          (''rvprop'', ''content''), (''titles'', drop 1 d)],
                            queryProto := True,
                            pathname := ''/w/api.php'',
                            protocol := sh_protocol sh\<rparr>,
                        opt\<lparr>addCorsOrigin := True\<rparr>), self))
      else if p = ''tabular:'' \<or> p = ''tabularinfo:'' then
        (case decodeURIComponent B (pathname u) of
           None \<Rightarrow> (Inl URIError, self)
         | Some d \<Rightarrow>
             if \<not> re_title d then (Inl (InvalidTitle p), self)
             else (case validateExternalService B self
                          (u\<lparr>query := Some [(''format'', ''json''), (''formatversion'', ''2''),
                                            (''action'', ''jsondata''), (''title'', drop 1 d)],
                             queryProto := True,
                             pathname := ''/w/api.php''\<rparr>)
                          sh (url opt) (Some ''tabular:'') of
                     (Inl e, self1) \<Rightarrow> (Inl e, self1)
                   | (Inr u1, self1) \<Rightarrow> (Inr (u1, opt\<lparr>addCorsOrigin := True\<rparr>), self1)))
      else if p = ''wikifile:'' then
        (Inr (u\<lparr>pathname := ''/wiki/Special:Redirect/file'' @ pathname u,
                 protocol := sh_protocol sh\<rparr>, opt), self)
      else if p = ''wikirawupload:'' then
        (case validateExternalService B self u sh (url opt) None of
           (Inl e, self1) \<Rightarrow> (Inl e, self1)
         | (Inr u1, self1) \<Rightarrow> (Inr (u1\<lparr>query := Some [], queryProto := True\<rparr>, opt), self1))
      else if p = ''wikidatasparql:'' then
        (case validateExternalService B self u sh (url opt) None of
           (Inl e, self1) \<Rightarrow> (Inl e, self1)
         | (Inr u1, self1) \<Rightarrow>
             (case query u1 of
                None \<Rightarrow> (Inl (SparqlMissingQuery (url opt)), self1)
              | Some q \<Rightarrow>
                  (case map_of q ''query'' of
                     None \<Rightarrow> (Inl (SparqlMissingQuery (url opt)), self1)
                   | Some v \<Rightarrow>
                       if v = [] then (Inl (SparqlMissingQuery (url opt)), self1)
                       else (Inr (u1\<lparr>query := Some [(''query'', v)],
                                      queryProto := True,
                                      pathname := ''/bigdata/namespace/wdq/sparql''\<rparr>,
                                  opt\<lparr>headers :=
                                        objExtender self
                                          (Some (case headers opt of None \<Rightarrow> [] | Some hs \<Rightarrow> hs))
                                          [(''Accept'', ''application/sparql-results+json'')]\<rparr>),
                             self1))))
      else if p = ''geoshape:'' \<or> p = ''geoline:'' then
        (case validateExternalService B self u sh (url opt) (Some ''geoshape:'') of
           (Inl e, self1) \<Rightarrow> (Inl e, self1)
         | (Inr u1, self1) \<Rightarrow>
             (case query u1 of
                None \<Rightarrow> (Inl (MissingIdsOrQuery (toStr (graphProtocol opt)) (url opt)), self1)
              | Some q \<Rightarrow>
                  if (case map_of q ''ids'' of None \<Rightarrow> True | Some v \<Rightarrow> v = [])
                     \<and> (case map_of q ''query'' of None \<Rightarrow> True | Some v \<Rightarrow> v = [])
                  then (Inl (MissingIdsOrQuery (toStr (graphProtocol opt)) (url opt)), self1)
                  else (Inr (u1\<lparr>pathname := ''/'' @ removeColon (toStr (graphProtocol opt))\<rparr>, opt),
                        self1)))
      else if p = ''mapsnapshot:'' then
        (case validateExternalService B self u sh (url opt) (Some ''geoshape:'') of
           (Inl e, self1) \<Rightarrow> (Inl e, self1)
         | (Inr u1, self1) \<Rightarrow>
             (case query u1 of
                None \<Rightarrow> (Inl MissingRequiredParameters, self1)
              | Some q \<Rightarrow>
                  (case validateSnapshot B (queryProto u1) q of
                     Inl e \<Rightarrow> (Inl e, self1)
                   | Inr _ \<Rightarrow>
                       (Inr (u1\<lparr>pathname := snapshotPath q, query := Some [], queryProto := True\<rparr>,
                             opt), self1))))
      else (Inl (UnknownProtocol (url opt)), self))"

subsection \<open>sanitizeUrl\<close>

text \<open>What a successful call leaves: the formatted URL, the final parts, the updated \<^verbatim>\<open>opt\<close>.\<close>

record sanitized =
  su_url :: string
  su_parts :: urlParts
  su_opt :: opt

text \<open>
  Lines 136-142: the canonical host is adopted, and a request that came without a
  protocol takes the protocol of the host.
\<close>

definition adoptHost :: "sanitizedHost \<Rightarrow> urlParts \<Rightarrow> urlParts" where
  "adoptHost sh u =
     (let u1 = u\<lparr>host := sh_host sh\<rparr>
      in if protocol u1 = [] then u1\<lparr>protocol := sh_protocol sh\<rparr> else u1)"

text \<open>Line 340: a translation that did not throw is formatted.\<close>

definition formatResult :: "VegaWrapper \<Rightarrow> error + urlParts \<times> opt \<Rightarrow> error + sanitized" where
  "formatResult self res =
     (case res of
        Inl e \<Rightarrow> Inl e
      | Inr (u3, opt3) \<Rightarrow> Inr \<lparr>su_url = formatUrl self u3 opt3, su_parts = u3, su_opt = opt3\<rparr>)"

text \<open>
  Lines 124-341. The parser and the formatter are functions of their arguments. The
  result is the error thrown, or the formatted URL with the final parts and the \<^verbatim>\<open>opt\<close>
  object as the call leaves it (after a throw the source leaves in \<^verbatim>\<open>opt\<close> what it had
  written so far; the model keeps the error only).
\<close>

definition sanitizeUrl ::
  "builtins \<Rightarrow> VegaWrapper \<Rightarrow> opt \<Rightarrow> (error + sanitized) \<times> VegaWrapper" where
  "sanitizeUrl B self opt0 =
     (let opt1 = opt0\<lparr>url := repairUrl (url opt0)\<rparr>;
          isRelativeProtocol = starts_with ''//'' (url opt1);
          u0 = parseUrl self opt1;
          (r, self1) = sanitizeHost B self (host u0)
      in case r of
           None \<Rightarrow> (Inl (HostNotWhitelisted (url opt1)), self1)
         | Some sh \<Rightarrow>
             (let u2 = adoptHost sh u0;
                  isRelativeProtocol2 = (isRelativeProtocol \<or> protocol u0 = []);
                  opt2 = opt1\<lparr>graphProtocol := Some (protocol u2)\<rparr>;
                  (res, self2) =
                    (if type opt2 = ''open''
                     then (sanitizeOpen B isRelativeProtocol2 sh u2 opt2, self1)
                     else sanitizeFetch B self1 sh u2 opt2)
              in (formatResult self res, self2)))"

section \<open>Response normalizer\<close>

text \<open>
  Reading the property \<^verbatim>\<open>error\<close> or \<^verbatim>\<open>warnings\<close> of a parsed value: a TypeError on
  \<^verbatim>\<open>null\<close>, the own property of an object (its keys are distinct), and \<^verbatim>\<open>undefined\<close>
  on everything else, none of whose prototypes has a property of these names.
\<close>

definition getProp :: "jsval \<Rightarrow> string \<Rightarrow> error + jsval" where
  "getProp v k =
     (case v of
        Undefined \<Rightarrow> Inl TypeError
      | Null \<Rightarrow> Inl TypeError
      | Obj kvs \<Rightarrow> Inr (case map_of kvs k of None \<Rightarrow> Undefined | Some x \<Rightarrow> x)
      | _ \<Rightarrow> Inr Undefined)"

text \<open>
  Lines 393-402. The second component lists the messages handed to the logger.
\<close>

definition parseMWApiResponse :: "builtins \<Rightarrow> string \<Rightarrow> (error + jsval) \<times> string list" where
  "parseMWApiResponse B raw =
     (case JSON_parse B raw of
        None \<Rightarrow> (Inl SyntaxError, [])
      | Some d \<Rightarrow>
          (case getProp d ''error'' of
             Inl e \<Rightarrow> (Inl e, [])
           | Inr er \<Rightarrow>
               if truthy er then (Inl (ApiError (JSON_stringify B er)), [])
               else (case getProp d ''warnings'' of
                       Inl e \<Rightarrow> (Inl e, [])
                     | Inr w \<Rightarrow>
                         if truthy w then (Inr d, [''API warnings: '' @ JSON_stringify B w])
                         else (Inr d, []))))"

text \<open>
  The steps that follow the API envelope under the other tags (lines 415-419, 423-434,
  438-449 and 453-464, the last one with the module \<^verbatim>\<open>wd-type-parser\<close>) read arrays
  and objects of any shape; no property proved below is about them, and they are kept as
  parameters.
\<close>

record unwrappers =
  rawContent :: "jsval \<Rightarrow> opt \<Rightarrow> error + jsval"
  tabularRows :: "jsval \<Rightarrow> error + jsval"
  tabularInfo :: "jsval \<Rightarrow> error + jsval"
  sparqlBindings :: "jsval \<Rightarrow> error + jsval"

text \<open>Lines 407-469. A tag that has no case leaves the payload as it is.\<close>

definition parseDataOrThrow ::
  "builtins \<Rightarrow> unwrappers \<Rightarrow> string \<Rightarrow> opt \<Rightarrow> (error + jsval) \<times> string list" where
  "parseDataOrThrow B U raw opt =
     (let unwrapped = (\<lambda>f. case parseMWApiResponse B raw of
                              (Inl e, l) \<Rightarrow> (Inl e, l)
                            | (Inr d, l) \<Rightarrow> (f d, l))
      in if graphProtocol opt = Some ''wikiapi:'' then parseMWApiResponse B raw
         else if graphProtocol opt = Some ''wikiraw:'' then unwrapped (\<lambda>d. rawContent U d opt)
         else if graphProtocol opt = Some ''tabular:'' then unwrapped (tabularRows U)
         else if graphProtocol opt = Some ''tabularinfo:'' then unwrapped (tabularInfo U)
         else if graphProtocol opt = Some ''wikidatasparql:'' then
           (case JSON_parse B raw of
              None \<Rightarrow> (Inl SyntaxError, [])
            | Some d \<Rightarrow> (sparqlBindings U d, []))
         else (Inr (Str raw), []))"

text \<open>
  Lines 378-388. The result is what the callback receives: the error (if any), the data
  (\<^verbatim>\<open>undefined\<close> with an error), and the messages logged on the way.
\<close>

definition dataParser ::
  "builtins \<Rightarrow> unwrappers \<Rightarrow> error option \<Rightarrow> string \<Rightarrow> opt
     \<Rightarrow> (error option \<times> jsval) \<times> string list" where
  "dataParser B U err raw opt =
     (case err of
        Some e \<Rightarrow> ((Some e, Undefined), [])
      | None \<Rightarrow>
          (case parseDataOrThrow B U raw opt of
             (Inl e, l) \<Rightarrow> ((Some e, Undefined), l)
           | (Inr d, l) \<Rightarrow> ((None, d), l)))"

section \<open>What the validator answers, whatever the cache holds\<close>

text \<open>
  The cache of matchers is sound when every matcher it holds is the one \<^verbatim>\<open>testHost\<close>
  would build; the empty cache of a new wrapper is. The definitions of this section
  state what the functions above answer on a sound cache, without the cache.
\<close>

definition cache_ok :: "builtins \<Rightarrow> VegaWrapper \<Rightarrow> bool" where
  "cache_ok B self =
     (\<forall>p v. validators self p = Some v \<longrightarrow>
        (\<exists>ds. getProtocolDomains self p = Some ds
              \<and> v = makeValidator B ds (p = ''https:'' \<or> p = ''http:'')))"

text \<open>\<open>later self self'\<close>: the wrapper \<open>self'\<close> is \<open>self\<close> with another cache.\<close>

definition later :: "VegaWrapper \<Rightarrow> VegaWrapper \<Rightarrow> bool" where
  "later self self' = (\<exists>vs. self' = self\<lparr>validators := vs\<rparr>)"

definition accepts :: "builtins \<Rightarrow> VegaWrapper \<Rightarrow> string \<Rightarrow> string option \<Rightarrow> bool" where
  "accepts B self p h =
     (case getProtocolDomains self p of
        None \<Rightarrow> False
      | Some ds \<Rightarrow> makeValidator B ds (p = ''https:'' \<or> p = ''http:'') (toStr h))"

definition rename :: "VegaWrapper \<Rightarrow> string option \<Rightarrow> string option" where
  "rename self h0 =
     (case domainMap self (toStr h0) of
        Some m \<Rightarrow> if m \<noteq> [] then Some m else h0
      | None \<Rightarrow> h0)"

definition resolve :: "builtins \<Rightarrow> VegaWrapper \<Rightarrow> string option \<Rightarrow> sanitizedHost option" where
  "resolve B self h0 =
     (if accepts B self ''https:'' (rename self h0)
      then Some \<lparr>sh_host = rename self h0, sh_protocol = ''https:''\<rparr>
      else if accepts B self ''http:'' (rename self h0)
      then Some \<lparr>sh_host = rename self h0, sh_protocol = ''http:''\<rparr>
      else None)"

definition externalService ::
  "builtins \<Rightarrow> VegaWrapper \<Rightarrow> urlParts \<Rightarrow> sanitizedHost \<Rightarrow> string \<Rightarrow> string option
     \<Rightarrow> error + urlParts" where
  "externalService B self u sh theUrl protocolOverride =
     (let p = (case protocolOverride of Some po \<Rightarrow> po | None \<Rightarrow> protocol u)
      in case getProtocolDomains self p of
           None \<Rightarrow> Inl (ProtocolDisabled p theUrl)
         | Some ds \<Rightarrow>
             (if isRelativeHost u then
                (let h = (case ds of [] \<Rightarrow> None | d # _ \<Rightarrow> Some d)
                 in case resolve B self h of
                      None \<Rightarrow> Inl TypeError
                    | Some s \<Rightarrow>
                        if accepts B self p h then Inr (u\<lparr>host := h, protocol := sh_protocol s\<rparr>)
                        else Inl (HostNotAllowed p theUrl))
              else if accepts B self p (host u) then Inr (u\<lparr>protocol := sh_protocol sh\<rparr>)
              else Inl (HostNotAllowed p theUrl)))"

text \<open>
  The scheme under whose domains \<^verbatim>\<open>sanitizeUrl\<close> looks up the external service of a
  resource tag: the override it passes to \<^verbatim>\<open>_validateExternalService\<close> at lines 263
  (\<^verbatim>\<open>tabular:\<close>), 303 and 317 (\<^verbatim>\<open>geoshape:\<close>), and the tag itself at lines 278 and
  287, where no override is passed. The other tags call no external service.
\<close>

definition serviceOf :: "string \<Rightarrow> string option" where
  "serviceOf p =
     (if p = ''tabular:'' \<or> p = ''tabularinfo:'' then Some ''tabular:''
      else if p = ''geoshape:'' \<or> p = ''geoline:'' \<or> p = ''mapsnapshot:'' then Some ''geoshape:''
      else if p = ''wikirawupload:'' \<or> p = ''wikidatasparql:'' then Some p
      else None)"

section \<open>The parameters of a map snapshot, in the words of the specification\<close>

text \<open>
  A parameter is in order when it is present, written in the required format (an integer
  numeral, or a decimal one for a float) and, as the number the runtime reads from it,
  not below the lower bound and not above the upper one.
\<close>

definition param_ok :: "builtins \<Rightarrow> dict \<Rightarrow> string \<Rightarrow> int \<Rightarrow> int \<Rightarrow> bool \<Rightarrow> bool" where
  "param_ok B q name lo hi isFloat =
     (case map_of q name of
        None \<Rightarrow> False
      | Some v \<Rightarrow>
          (if isFloat
           then re_float v \<and> \<not> js_lt (parseFloat B v) (Fin (of_int lo))
                \<and> \<not> js_lt (Fin (of_int hi)) (parseFloat B v)
           else re_int v \<and> \<not> js_lt (parseInt B v) (Fin (of_int lo))
                \<and> \<not> js_lt (Fin (of_int hi)) (parseInt B v)))"

text \<open>The three errors of \<^verbatim>\<open>validate\<close> carry the name of the parameter.\<close>

definition names_parameter :: "error \<Rightarrow> string \<Rightarrow> bool" where
  "names_parameter e name =
     (e = ParameterNotSet name \<or> e = ParameterNotNumber name \<or> e = ParameterNotValid name)"

section \<open>A runtime and a configuration for the examples\<close>

text \<open>
  The examples below run the translator on requests written in ASCII. This runtime
  agrees with ECMAScript on them: \<open>ascii_trim\<close> strips the six ASCII white-space
  characters (ECMAScript strips the Unicode ones too), \<open>ascii_decode\<close> decodes the
  escapes below \<^verbatim>\<open>%80\<close> and refuses every other one (ECMAScript accepts those that
  spell well-formed UTF-8), \<open>percent_encode\<close> escapes every byte that is not an unreserved
  character, and \<open>decimal_value\<close> is the exact value of a decimal numeral (the Number
  nearest to it is the same whenever that value is a Number, as in every example).
  JSON is not part of it: an example of the normalizer sets the two fields it needs.
\<close>

definition ascii_space :: "char \<Rightarrow> bool" where
  "ascii_space c = (c \<in> set [CHR 0x09, CHR 0x0A, CHR 0x0B, CHR 0x0C, CHR 0x0D, CHR '' ''])"

definition ascii_trim :: "string \<Rightarrow> string" where
  "ascii_trim s = rev (dropWhile ascii_space (rev (dropWhile ascii_space s)))"

definition hex_value :: "char \<Rightarrow> nat option" where
  "hex_value c =
     (if is_digit c then Some (of_char c - 48)
      else if c \<in> set ''ABCDEF'' then Some (of_char c - 55)
      else if c \<in> set ''abcdef'' then Some (of_char c - 87)
      else None)"

fun ascii_decode :: "string \<Rightarrow> string option" where
  "ascii_decode [] = Some []"
| "ascii_decode [c] = (if c = CHR ''%'' then None else Some [c])"
| "ascii_decode [c, a] = (if c = CHR ''%'' then None else map_option ((#) c) (ascii_decode [a]))"
| "ascii_decode (c # a # b # r) =
     (if c = CHR ''%'' then
        (case (hex_value a, hex_value b) of
           (Some x, Some y) \<Rightarrow>
             if 16 * x + y < 128 then map_option ((#) (char_of (16 * x + y))) (ascii_decode r)
             else None
         | _ \<Rightarrow> None)
      else map_option ((#) c) (ascii_decode (a # b # r)))"

definition unreserved :: "char \<Rightarrow> bool" where
  "unreserved c =
     (c \<in> set ''ABCDEFGHIJKLMNOPQRSTUVWXYZabcdefghijklmnopqrstuvwxyz0123456789-_.!~*'()'')"

definition hex_digit :: "nat \<Rightarrow> char" where
  "hex_digit n = ''0123456789ABCDEF'' ! (n mod 16)"

definition percent_encode :: "string \<Rightarrow> string" where
  "percent_encode s =
     concat (map (\<lambda>c. if unreserved c then [c]
                        else [CHR ''%'', hex_digit (of_char c div 16), hex_digit (of_char c)]) s)"

definition digits_value :: "string \<Rightarrow> nat" where
  "digits_value ds = foldl (\<lambda>a c. 10 * a + (of_char c - 48)) 0 ds"

definition decimal_value :: "string \<Rightarrow> jsnumber" where
  "decimal_value s =
     (if \<not> re_float s then NaN
      else (let neg = (take 1 s = ''-'');
                t = (if neg then drop 1 s else s);
                ip = takeWhile is_digit t;
                fp = drop 1 (dropWhile is_digit t);
                v = of_nat (digits_value ip) + of_nat (digits_value fp) / 10 ^ length fp
            in Fin (if neg then - v else v)))"

text \<open>
  Modelled from the spec: the matcher of the module \<^verbatim>\<open>domain-validator\<close>, which is not
  under \<^verbatim>\<open>src/\<close>. A host matches when it equals a configured entry or, with the flag
  set, is a subdomain of one ("equal or be a subdomain of a configured entry").
\<close>

definition subdomainValidator :: "string list \<Rightarrow> bool \<Rightarrow> string \<Rightarrow> bool" where
  "subdomainValidator ds sub h =
     list_ex (\<lambda>d. h = d \<or> (sub \<and> length d < length h
                             \<and> drop (length h - Suc (length d)) h = CHR ''.'' # d)) ds"

definition asciiBuiltins :: builtins where
  "asciiBuiltins =
     \<lparr>decodeURIComponent = ascii_decode,
      encodeURIComponent = (\<lambda>s. Some (percent_encode s)),
      trim = ascii_trim,
      parseInt = decimal_value,
      parseFloat = decimal_value,
      JSON_parse = (\<lambda>_. None),
      JSON_stringify = (\<lambda>_. ''null''),
      makeValidator = subdomainValidator\<rparr>"

text \<open>\<^verbatim>\<open>extend(obj, src)\<close> on dictionaries: each key of \<open>src\<close> is set in \<open>obj\<close>.\<close>

fun setKey :: "string \<Rightarrow> string \<Rightarrow> dict \<Rightarrow> dict" where
  "setKey k v [] = [(k, v)]"
| "setKey k v ((k', v') # r) = (if k' = k then (k, v) # r else (k', v') # setKey k v r)"

definition extendDict :: "dict option \<Rightarrow> dict \<Rightarrow> dict option" where
  "extendDict obj src =
     Some (foldl (\<lambda>acc (k, v). setKey k v acc) (case obj of None \<Rightarrow> [] | Some d \<Rightarrow> d) src)"

text \<open>
  A wrapper as its constructor leaves it (no matcher built yet), with a configuration in
  the shape the JSDoc describes, a parser that answers the given parts, and a formatter
  that writes the protocol, the host and the pathname.
\<close>

definition exampleWrapper :: "bool \<Rightarrow> urlParts \<Rightarrow> VegaWrapper" where
  "exampleWrapper trusted parts =
     newVegaWrapper trusted
       (map_of [(''https'', [''wikipedia.org'', ''wikimedia.org'']),
                (''http'', [''localhost'']),
                (''geoshape'', [''maps.wikimedia.org'']),
                (''tabular'', [''commons.wikimedia.org''])])
       (map_of [(''wiki.local'', ''localhost'')])
       extendDict
       (\<lambda>_. parts)
       (\<lambda>u _. protocol u @ ''//'' @ toStr (host u) @ pathname u)"

definition exampleOpt :: "string \<Rightarrow> string \<Rightarrow> opt" where
  "exampleOpt action theUrl =
     \<lparr>url = theUrl, type = action, graphProtocol = None, addCorsOrigin = False, headers = None\<rparr>"

text \<open>What a parser answers on the requests of the examples.\<close>

definition wikiapiParts :: urlParts where
  \<comment> \<open>\<^verbatim>\<open>wikiapi:///?action=query&list=allpages\<close>\<close>
  "wikiapiParts =
     \<lparr>host = Some ''en.wikipedia.org'', protocol = ''wikiapi:'', pathname = ''/'',
      query = Some [(''action'', ''query''), (''list'', ''allpages'')], queryProto = True,
      isRelativeHost = True\<rparr>"

definition httpParts :: "string \<Rightarrow> urlParts" where
  \<comment> \<open>\<^verbatim>\<open>http://<host>/data.json\<close>\<close>
  "httpParts h =
     \<lparr>host = Some h, protocol = ''http:'', pathname = ''/data.json'', query = Some [],
      queryProto = True, isRelativeHost = False\<rparr>"

definition titleParts :: "string \<Rightarrow> dict \<Rightarrow> urlParts" where
  \<comment> \<open>\<^verbatim>\<open>wikititle:///<title>?<query>\<close>\<close>
  "titleParts path q =
     \<lparr>host = Some ''en.wikipedia.org'', protocol = ''wikititle:'', pathname = path, query = Some q,
      queryProto = True, isRelativeHost = True\<rparr>"

definition snapshotParts :: "dict option \<Rightarrow> urlParts" where
  \<comment> \<open>\<^verbatim>\<open>mapsnapshot:///?<query>\<close>\<close>
  "snapshotParts q =
     \<lparr>host = Some ''en.wikipedia.org'', protocol = ''mapsnapshot:'', pathname = ''/'', query = q,
      queryProto = True, isRelativeHost = True\<rparr>"

text \<open>The query \<^verbatim>\<open>width=<w>&height=100&zoom=5&lat=10&lon=10\<close>.\<close>

definition snapshotQuery :: "string \<Rightarrow> dict" where
  "snapshotQuery w =
     [(''width'', w), (''height'', ''100''), (''zoom'', ''5''), (''lat'', ''10''), (''lon'', ''10'')]"

text \<open>
  A configuration whose service \<^verbatim>\<open>geoshape\<close> is listed under a name that the rename
  table maps to \<^verbatim>\<open>localhost\<close>, and what a parser answers on \<^verbatim>\<open>geoshape:///?ids=Q1\<close>.
\<close>

definition aliasWrapper :: "urlParts \<Rightarrow> VegaWrapper" where
  "aliasWrapper parts =
     newVegaWrapper False
       (map_of [(''https'', [''wikipedia.org'']),
                (''http'', [''localhost'']),
                (''geoshape'', [''maps.local''])])
       (map_of [(''maps.local'', ''localhost'')])
       extendDict
       (\<lambda>_. parts)
       (\<lambda>u _. protocol u @ ''//'' @ toStr (host u) @ pathname u)"

definition geoshapeParts :: urlParts where
  \<comment> \<open>\<^verbatim>\<open>geoshape:///?ids=Q1\<close>\<close>
  "geoshapeParts =
     \<lparr>host = Some ''en.wikipedia.org'', protocol = ''geoshape:'', pathname = ''/'',
      query = Some [(''ids'', ''Q1'')], queryProto = True, isRelativeHost = True\<rparr>"

text \<open>
  For the normalizer: a runtime whose \<^verbatim>\<open>JSON.parse\<close> reads the payload as the value
  \<open>v\<close> and whose \<^verbatim>\<open>JSON.stringify\<close> writes a string between double quotes (as
  ECMAScript does for a string that needs no escape; the examples stringify nothing else),
  unwrapping steps that leave the data as it is, and a request tagged \<^verbatim>\<open>wikiapi:\<close>.
\<close>

definition parsingTo :: "jsval \<Rightarrow> builtins" where
  "parsingTo v =
     asciiBuiltins
       \<lparr>JSON_parse := (\<lambda>_. Some v),
        JSON_stringify := (\<lambda>x. case x of Str s \<Rightarrow> CHR 0x22 # s @ [CHR 0x22] | _ \<Rightarrow> ''null'')\<rparr>"

definition plainUnwrappers :: unwrappers where
  "plainUnwrappers =
     \<lparr>rawContent = (\<lambda>d _. Inr d), tabularRows = Inr, tabularInfo = Inr, sparqlBindings = Inr\<rparr>"

definition wikiapiOpt :: opt where
  "wikiapiOpt = (exampleOpt ''get'' ''wikiapi:///?action=query'')\<lparr>graphProtocol := Some ''wikiapi:''\<rparr>"

text \<open>A configuration that lists the same domain for \<^verbatim>\<open>https\<close> and for \<^verbatim>\<open>geoshape\<close>.\<close>

definition sameListWrapper :: VegaWrapper where
  "sameListWrapper =
     newVegaWrapper False
       (map_of [(''https'', [''wikimedia.org'']), (''geoshape'', [''wikimedia.org''])])
       Map.empty
       extendDict
       (\<lambda>_. \<lparr>host = None, protocol = [], pathname = [], query = None, queryProto = True, isRelativeHost = False\<rparr>)
       (\<lambda>u _. protocol u @ ''//'' @ toStr (host u) @ pathname u)"

section \<open>The cache stays sound\<close>

lemma getProtocolDomains_validators [simp]:
  "getProtocolDomains (self\<lparr>validators := vs\<rparr>) p = getProtocolDomains self p"
  by (simp add: getProtocolDomains_def split: option.splits)

lemma accepts_validators [simp]: "accepts B (self\<lparr>validators := vs\<rparr>) p h = accepts B self p h"
  by (simp add: accepts_def)

lemma later_refl [simp]: "later self self"
  unfolding later_def by (rule exI [of _ "validators self"]) simp

lemma later_trans: "later a b \<Longrightarrow> later b c \<Longrightarrow> later a c"
  unfolding later_def by auto

lemma later_accepts: "later self self' \<Longrightarrow> accepts B self' p h = accepts B self p h"
  unfolding later_def by auto

lemma cache_ok_empty: "validators self = Map.empty \<Longrightarrow> cache_ok B self"
  by (simp add: cache_ok_def)

lemma cache_ok_new: "cache_ok B (newVegaWrapper t ds dm ext prs fmt)"
  by (rule cache_ok_empty) (simp add: newVegaWrapper_def)

lemma testHost_sound:
  assumes ok: "cache_ok B self" and run: "testHost B self p h = (b, self')"
  shows "b = accepts B self p h \<and> cache_ok B self' \<and> later self self'"
proof (cases "validators self p")
  case (Some v)
  with ok obtain ds where ds: "getProtocolDomains self p = Some ds"
    and v: "v = makeValidator B ds (p = ''https:'' \<or> p = ''http:'')"
    unfolding cache_ok_def by blast
  from run Some have "b = v (toStr h)" and "self' = self"
    by (simp_all add: testHost_def)
  with ok ds v show ?thesis by (simp add: accepts_def)
next
  case None
  show ?thesis
  proof (cases "getProtocolDomains self p")
    case nodom: None
    with run None have "b = False" and "self' = self"
      by (simp_all add: testHost_def)
    with ok nodom show ?thesis by (simp add: accepts_def)
  next
    case (Some ds)
    let ?v = "makeValidator B ds (p = ''https:'' \<or> p = ''http:'')"
    from run None Some have b: "b = ?v (toStr h)"
      and s: "self' = self\<lparr>validators := (validators self)(p \<mapsto> ?v)\<rparr>"
      by (simp_all add: testHost_def Let_def)
    have "cache_ok B self'"
      using ok Some unfolding cache_ok_def s by auto
    moreover have "later self self'"
      unfolding later_def s by blast
    ultimately show ?thesis using b Some by (simp add: accepts_def)
  qed
qed

lemma later_rename: "later self self' \<Longrightarrow> rename self' h = rename self h"
  unfolding later_def rename_def by auto

lemma later_resolve:
  assumes l: "later self self'"
  shows "resolve B self' h = resolve B self h"
  unfolding resolve_def by (simp add: later_accepts [OF l] later_rename [OF l])

lemma sanitizeHost_sound:
  assumes ok: "cache_ok B self" and run: "sanitizeHost B self h0 = (r, self')"
  shows "r = resolve B self h0 \<and> cache_ok B self' \<and> later self self'"
proof -
  let ?h = "rename self h0"
  obtain b1 s1 where t1: "testHost B self ''https:'' ?h = (b1, s1)"
    by (cases "testHost B self ''https:'' ?h")
  from testHost_sound [OF ok t1]
  have b1: "b1 = accepts B self ''https:'' ?h" and ok1: "cache_ok B s1" and l1: "later self s1"
    by simp_all
  obtain b2 s2 where t2: "testHost B s1 ''http:'' ?h = (b2, s2)"
    by (cases "testHost B s1 ''http:'' ?h")
  from testHost_sound [OF ok1 t2]
  have b2: "b2 = accepts B s1 ''http:'' ?h" and ok2: "cache_ok B s2" and l2: "later s1 s2"
    by simp_all
  have b2': "b2 = accepts B self ''http:'' ?h"
    using b2 later_accepts [OF l1] by simp
  have l12: "later self s2" using l1 l2 by (rule later_trans)
  show ?thesis
  proof (cases b1)
    case True
    with run t1 have "r = Some \<lparr>sh_host = ?h, sh_protocol = ''https:''\<rparr>" and "self' = s1"
      by (simp_all add: sanitizeHost_def rename_def Let_def)
    with True b1 ok1 l1 show ?thesis by (simp add: resolve_def)
  next
    case False
    with run t1 t2
    have "r = (if b2 then Some \<lparr>sh_host = ?h, sh_protocol = ''http:''\<rparr> else None)"
      and "self' = s2"
      by (simp_all add: sanitizeHost_def rename_def Let_def split: if_splits)
    with False b1 b2' ok2 l12 show ?thesis by (simp add: resolve_def)
  qed
qed

lemma resolve_Some:
  "resolve B self h = Some s \<Longrightarrow>
     sh_host s = rename self h \<and> (sh_protocol s = ''https:'' \<or> sh_protocol s = ''http:'')
     \<and> accepts B self (sh_protocol s) (sh_host s)"
  unfolding resolve_def by (auto split: if_splits)

lemma later_getProtocolDomains:
  "later self self' \<Longrightarrow> getProtocolDomains self' p = getProtocolDomains self p"
  unfolding later_def by auto


lemma validateExternalService_sound:
  assumes ok: "cache_ok B self" and run: "validateExternalService B self u sh w po = (r, self')"
  shows "r = externalService B self u sh w po \<and> cache_ok B self' \<and> later self self'"
proof -
  let ?p = "case po of Some x \<Rightarrow> x | None \<Rightarrow> protocol u"
  show ?thesis
  proof (cases "getProtocolDomains self ?p")
    case None
    with run ok show ?thesis
      by (simp add: validateExternalService_def externalService_def)
  next
    case (Some ds)
    let ?h = "case ds of [] \<Rightarrow> None | d # _ \<Rightarrow> Some d"
    show ?thesis
    proof (cases "isRelativeHost u")
      case False
      obtain b s1 where t: "testHost B self ?p (host u) = (b, s1)"
        by (cases "testHost B self ?p (host u)")
      from testHost_sound [OF ok t]
      have b: "b = accepts B self ?p (host u)" and ok1: "cache_ok B s1" and l1: "later self s1"
        by simp_all
      from run Some False t
      have "r = (if b then Inr (u\<lparr>protocol := sh_protocol sh\<rparr>) else Inl (HostNotAllowed ?p w))"
        and "self' = s1"
        by (simp_all add: validateExternalService_def Let_def split: if_splits)
      with Some False b ok1 l1 show ?thesis
        by (simp add: externalService_def)
    next
      case True
      obtain rh s1 where sh1: "sanitizeHost B self ?h = (rh, s1)"
        by (cases "sanitizeHost B self ?h")
      from sanitizeHost_sound [OF ok sh1]
      have rh: "rh = resolve B self ?h" and ok1: "cache_ok B s1" and l1: "later self s1"
        by simp_all
      show ?thesis
      proof (cases rh)
        case None
        with run Some True sh1 have "r = Inl TypeError" and "self' = s1"
          by (simp_all add: validateExternalService_def Let_def)
        with Some True None rh ok1 l1 show ?thesis
          by (simp add: externalService_def)
      next
        case (Some s)
        note rhs = Some
        obtain b s2 where t: "testHost B s1 ?p ?h = (b, s2)"
          by (cases "testHost B s1 ?p ?h")
        from testHost_sound [OF ok1 t]
        have b: "b = accepts B s1 ?p ?h" and ok2: "cache_ok B s2" and l2: "later s1 s2"
          by simp_all
        have b': "b = accepts B self ?p ?h" using b later_accepts [OF l1] by simp
        have l12: "later self s2" using l1 l2 by (rule later_trans)
        from run \<open>getProtocolDomains self ?p = Some ds\<close> True sh1 rhs t
        have "r = (if b then Inr (u\<lparr>host := ?h, protocol := sh_protocol s\<rparr>)
                   else Inl (HostNotAllowed ?p w))"
          and "self' = s2"
          by (simp_all add: validateExternalService_def Let_def split: if_splits)
        with \<open>getProtocolDomains self ?p = Some ds\<close> True rhs rh b' ok2 l12 show ?thesis
          by (simp add: externalService_def)
      qed
    qed
  qed
qed


lemma sanitizeFetch_sound:
  assumes ok: "cache_ok B self" and run: "sanitizeFetch B self sh u opt = (r, self')"
  shows "cache_ok B self' \<and> later self self'"
proof -
  have ves: "\<And>u' po r' s'. validateExternalService B self u' sh (url opt) po = (r', s')
               \<Longrightarrow> cache_ok B s' \<and> later self s'"
    using validateExternalService_sound [OF ok] by blast
  show ?thesis
    using run ok unfolding sanitizeFetch_def
    by (auto simp: Let_def split: if_splits option.splits prod.splits sum.splits dest!: ves)
qed

section \<open>Unfolding sanitizeUrl\<close>

lemma sanitizeUrl_unlisted:
  assumes "fst (sanitizeHost B self (host (parseUrl self (opt\<lparr>url := repairUrl (url opt)\<rparr>)))) = None"
  shows "fst (sanitizeUrl B self opt) = Inl (HostNotWhitelisted (repairUrl (url opt)))"
proof -
  let ?u0 = "parseUrl self (opt\<lparr>url := repairUrl (url opt)\<rparr>)"
  obtain r self1 where run: "sanitizeHost B self (host ?u0) = (r, self1)"
    by (cases "sanitizeHost B self (host ?u0)")
  with assms have "r = None" by simp
  with run show ?thesis by (simp add: sanitizeUrl_def Let_def)
qed

lemma sanitizeUrl_open:
  assumes parse: "parseUrl self (opt\<lparr>url := repairUrl (url opt)\<rparr>) = u0"
    and hst: "fst (sanitizeHost B self (host u0)) = Some sh"
    and ty: "type opt = ''open''"
  shows "fst (sanitizeUrl B self opt)
         = formatResult self
             (sanitizeOpen B (starts_with ''//'' (repairUrl (url opt)) \<or> protocol u0 = []) sh
                (adoptHost sh u0)
                (opt\<lparr>url := repairUrl (url opt), graphProtocol := Some (protocol (adoptHost sh u0))\<rparr>))"
proof -
  obtain r self1 where run: "sanitizeHost B self (host u0) = (r, self1)"
    by (cases "sanitizeHost B self (host u0)")
  with hst have r: "r = Some sh" by simp
  show ?thesis
    using parse run r ty
    by (simp add: sanitizeUrl_def formatResult_def Let_def)
qed

lemma sanitizeUrl_fetch:
  assumes ok: "cache_ok B self"
    and parse: "parseUrl self (opt\<lparr>url := repairUrl (url opt)\<rparr>) = u0"
    and hst: "fst (sanitizeHost B self (host u0)) = Some sh"
    and ty: "type opt \<noteq> ''open''"
  shows "\<exists>self1. cache_ok B self1 \<and> later self self1
           \<and> fst (sanitizeUrl B self opt)
               = formatResult self
                   (fst (sanitizeFetch B self1 sh (adoptHost sh u0)
                      (opt\<lparr>url := repairUrl (url opt),
                           graphProtocol := Some (protocol (adoptHost sh u0))\<rparr>)))"
proof -
  obtain r self1 where run: "sanitizeHost B self (host u0) = (r, self1)"
    by (cases "sanitizeHost B self (host u0)")
  from sanitizeHost_sound [OF ok run] have ok1: "cache_ok B self1" and l1: "later self self1"
    by simp_all
  from run hst have r: "r = Some sh" by simp
  let ?f = "sanitizeFetch B self1 sh (adoptHost sh u0)
                 (opt\<lparr>url := repairUrl (url opt),
                      graphProtocol := Some (protocol (adoptHost sh u0))\<rparr>)"
  obtain res self2 where f: "?f = (res, self2)" by (cases ?f)
  have "fst (sanitizeUrl B self opt) = formatResult self (fst ?f)"
    using parse run r ty f
    by (simp add: sanitizeUrl_def formatResult_def Let_def)
  with ok1 l1 show ?thesis by blast
qed

lemma sanitizeUrl_sound:
  assumes ok: "cache_ok B self" and run: "sanitizeUrl B self opt = (r, self')"
  shows "cache_ok B self' \<and> later self self'"
proof -
  let ?opt1 = "opt\<lparr>url := repairUrl (url opt)\<rparr>"
  let ?u0 = "parseUrl self ?opt1"
  obtain rh self1 where h: "sanitizeHost B self (host ?u0) = (rh, self1)"
    by (cases "sanitizeHost B self (host ?u0)")
  from sanitizeHost_sound [OF ok h] have ok1: "cache_ok B self1" and l1: "later self self1"
    by simp_all
  show ?thesis
  proof (cases rh)
    case None
    with run h have "self' = self1" by (simp add: sanitizeUrl_def Let_def)
    with ok1 l1 show ?thesis by simp
  next
    case (Some sh)
    let ?u2 = "adoptHost sh ?u0"
    let ?opt2 = "?opt1\<lparr>graphProtocol := Some (protocol ?u2)\<rparr>"
    show ?thesis
    proof (cases "type opt = ''open''")
      case True
      with run h Some have "self' = self1" by (simp add: sanitizeUrl_def Let_def)
      with ok1 l1 show ?thesis by simp
    next
      case False
      obtain res self2 where f: "sanitizeFetch B self1 sh ?u2 ?opt2 = (res, self2)"
        by (cases "sanitizeFetch B self1 sh ?u2 ?opt2")
      from sanitizeFetch_sound [OF ok1 f] have ok2: "cache_ok B self2" and l2: "later self1 self2"
        by simp_all
      from run h Some False f have "self' = self2" by (simp add: sanitizeUrl_def Let_def)
      with ok2 later_trans [OF l1 l2] show ?thesis by simp
    qed
  qed
qed

lemma later_isTrusted: "later self self' \<Longrightarrow> isTrusted self' = isTrusted self"
  unfolding later_def by auto

lemma testHost_fst: "cache_ok B self \<Longrightarrow> fst (testHost B self p h) = accepts B self p h"
  using testHost_sound [of B self p h "fst (testHost B self p h)" "snd (testHost B self p h)"]
  by simp

lemma sanitizeHost_fst: "cache_ok B self \<Longrightarrow> fst (sanitizeHost B self h) = resolve B self h"
  using sanitizeHost_sound [of B self h "fst (sanitizeHost B self h)" "snd (sanitizeHost B self h)"]
  by simp


lemma sanitizeFetch_http:
  assumes "protocol u = ''http:'' \<or> protocol u = ''https:''"
  shows "sanitizeFetch B self sh u opt
         = (if \<not> isTrusted self then Inl UntrustedProtocol else Inr (u, opt), self)"
  using assms by (auto simp: sanitizeFetch_def)

lemma adoptHost_simps [simp]:
  "host (adoptHost sh u) = sh_host sh"
  "pathname (adoptHost sh u) = pathname u"
  "query (adoptHost sh u) = query u"
  "queryProto (adoptHost sh u) = queryProto u"
  "isRelativeHost (adoptHost sh u) = isRelativeHost u"
  "protocol (adoptHost sh u) = (if protocol u = [] then sh_protocol sh else protocol u)"
  by (simp_all add: adoptHost_def Let_def)

lemma openTitle_Inr:
  assumes "openTitle B sh u opt d = Inr (u3, opt3)"
  shows "host u3 = host u \<and> protocol u3 = sh_protocol sh \<and> query u3 = Some []
         \<and> (\<exists>e. encodeURIComponent B (replaceFirst CHR '' '' CHR ''_'' (drop 1 d)) = Some e
                \<and> pathname u3 = ''/wiki/'' @ e) \<and> re_title d \<and> opt3 = opt"
  using assms unfolding openTitle_def
  by (auto split: option.splits if_splits)

lemma sanitizeOpen_Inr:
  assumes "sanitizeOpen B rel sh u opt = Inr (u3, opt3)"
  shows "host u3 = host u \<and> protocol u3 = sh_protocol sh"
  using assms unfolding sanitizeOpen_def
  by (auto simp: Let_def split: option.splits if_splits dest!: openTitle_Inr)

lemma sanitizeOpen_shape:
  assumes "sanitizeOpen B rel sh u opt = Inr (u3, opt3)"
  shows "protocol u3 = sh_protocol sh \<and> host u3 = host u \<and> query u3 = Some []
         \<and> (\<exists>d e. decodeURIComponent B (pathname u) = Some d
                \<and> encodeURIComponent B
                     (replaceFirst CHR '' '' CHR ''_''
                        (drop 1 (if (protocol u = ''http:'' \<or> protocol u = ''https:'') \<and> \<not> rel
                                 then drop 5 (trim B d) else trim B d))) = Some e
                \<and> pathname u3 = ''/wiki/'' @ e)"
  using assms unfolding sanitizeOpen_def
  by (auto simp: Let_def split: option.splits if_splits dest!: openTitle_Inr)

lemma externalService_shape:
  assumes "externalService B self u sh w po = Inr u1"
  shows "if isRelativeHost u
         then (\<exists>ds s. getProtocolDomains self (case po of Some x \<Rightarrow> x | None \<Rightarrow> protocol u) = Some ds
                 \<and> host u1 = (case ds of [] \<Rightarrow> None | d # _ \<Rightarrow> Some d)
                 \<and> resolve B self (host u1) = Some s \<and> protocol u1 = sh_protocol s
                 \<and> accepts B self (case po of Some x \<Rightarrow> x | None \<Rightarrow> protocol u) (host u1))
         else host u1 = host u \<and> protocol u1 = sh_protocol sh"
  using assms unfolding externalService_def
  by (auto simp: Let_def split: option.splits if_splits)

lemma sanitizeFetch_canonical:
  assumes ok: "cache_ok B self" and nt: "\<not> isTrusted self"
    and run: "fst (sanitizeFetch B self sh u opt) = Inr (u3, opt3)"
  shows "case (if isRelativeHost u then serviceOf (protocol u) else None) of
           None \<Rightarrow> host u3 = host u \<and> protocol u3 = sh_protocol sh
         | Some p \<Rightarrow>
             (\<exists>ds s. getProtocolDomains self p = Some ds
                 \<and> host u3 = (case ds of [] \<Rightarrow> None | d # _ \<Rightarrow> Some d)
                 \<and> resolve B self (host u3) = Some s \<and> protocol u3 = sh_protocol s
                 \<and> accepts B self p (host u3))"
proof -
  have ves: "\<And>u' w po r' s'. validateExternalService B self u' sh w po = (Inr r', s')
               \<Longrightarrow> if isRelativeHost u'
         then (\<exists>ds s. getProtocolDomains self (case po of Some x \<Rightarrow> x | None \<Rightarrow> protocol u') = Some ds
                 \<and> host r' = (case ds of [] \<Rightarrow> None | d # _ \<Rightarrow> Some d)
                 \<and> resolve B self (host r') = Some s \<and> protocol r' = sh_protocol s
                 \<and> accepts B self (case po of Some x \<Rightarrow> x | None \<Rightarrow> protocol u') (host r'))
         else host r' = host u' \<and> protocol r' = sh_protocol sh"
    using validateExternalService_sound [OF ok] externalService_shape by metis
  show ?thesis
    using run nt unfolding sanitizeFetch_def serviceOf_def
    by (auto simp: Let_def split: if_splits option.splits prod.splits sum.splits dest!: ves)
qed

text \<open>
  The range check on a parameter, by cases on the parameter: the form in which a closed
  example evaluates it.
\<close>

lemma validate_cases:
  "validate B inherits obj name mn mx isFloat =
     (if map_of obj ''hasOwnProperty'' \<noteq> None \<or> \<not> inherits then Inl TypeError
      else (case map_of obj name of
              None \<Rightarrow> Inl (ParameterNotSet name)
            | Some v \<Rightarrow>
                if \<not> (if isFloat then re_float v else re_int v) then Inl (ParameterNotNumber name)
                else (let n = (if isFloat then parseFloat B v else parseInt B v)
                      in if js_lt n (Fin (of_int mn)) \<or> js_lt (Fin (of_int mx)) n
                         then Inl (ParameterNotValid name)
                         else Inr n)))"
  by (auto simp: validate_def hasOwnProperty_def toStr_def Let_def split: option.splits)

text \<open>Everything a closed example unfolds.\<close>

lemmas model_defs =
  sanitizeUrl_def sanitizeHost_def testHost_def getProtocolDomains_def removeColon_def
  validateExternalService_def validate_cases validateSnapshot_def snapshotPath_def
  openTitle_def sanitizeOpen_def sanitizeFetch_def adoptHost_def formatResult_def
  repairUrl_def starts_with_def is_lower_def is_digit_def toStr_def
  re_title_def re_wiki_prefix_def re_api_prefix_def re_int_def re_float_def re_style_def
  exampleWrapper_def newVegaWrapper_def exampleOpt_def asciiBuiltins_def subdomainValidator_def extendDict_def
  ascii_trim_def ascii_space_def percent_encode_def unreserved_def hex_digit_def
  decimal_value_def digits_value_def hex_value_def
  wikiapiParts_def httpParts_def titleParts_def snapshotParts_def Let_def

lemmas more_defs = snapshotQuery_def param_ok_def names_parameter_def

lemma exampleWrapper_cache_ok: "cache_ok B (exampleWrapper t parts)"
  by (rule cache_ok_empty) (simp add: exampleWrapper_def newVegaWrapper_def)

section \<open>Host Allowlist Validator: the matcher of a scheme\<close>

text \<open>
  C3, as amended. For every scheme identifier with configured domains, \<^verbatim>\<open>testHost\<close>
  answers with the matcher that \<^verbatim>\<open>makeValidator\<close> builds from those domains and a flag,
  and keeps that matcher; the flag is true for \<^verbatim>\<open>https:\<close> and \<^verbatim>\<open>http:\<close> and false
  for every other scheme identifier. The construction is therefore not the same for the
  custom resource-tag schemes as for http/https.
\<close>

theorem testHost_matcher_flag:
  assumes ok: "cache_ok B self" and ds: "getProtocolDomains self p = Some ds"
  shows "fst (testHost B self p h) = makeValidator B ds (p = ''https:'' \<or> p = ''http:'') (toStr h)
         \<and> validators (snd (testHost B self p h)) p
             = Some (makeValidator B ds (p = ''https:'' \<or> p = ''http:''))"
proof (cases "validators self p")
  case None
  with ds show ?thesis by (simp add: testHost_def Let_def)
next
  case (Some v)
  with ok ds have "v = makeValidator B ds (p = ''https:'' \<or> p = ''http:'')"
    unfolding cache_ok_def by fastforce
  with Some show ?thesis by (simp add: testHost_def)
qed

text \<open>
  The theorem at the scheme \<^verbatim>\<open>geoshape:\<close> of the example configuration: the matcher is
  built with the flag false, and it accepts the configured host itself.
\<close>

theorem testHost_matcher_flag_witness:
  "cache_ok asciiBuiltins (exampleWrapper False \<lparr>host = None, protocol = [], pathname = [],
        query = None, queryProto = True, isRelativeHost = False\<rparr>)
   \<and> getProtocolDomains (exampleWrapper False \<lparr>host = None, protocol = [], pathname = [],
        query = None, queryProto = True, isRelativeHost = False\<rparr>) ''geoshape:'' = Some [''maps.wikimedia.org'']
   \<and> fst (testHost asciiBuiltins (exampleWrapper False \<lparr>host = None, protocol = [], pathname = [],
        query = None, queryProto = True, isRelativeHost = False\<rparr>) ''geoshape:'' (Some ''maps.wikimedia.org''))
       = subdomainValidator [''maps.wikimedia.org''] False ''maps.wikimedia.org''
   \<and> subdomainValidator [''maps.wikimedia.org''] False ''maps.wikimedia.org''"
proof -
  let ?W = "exampleWrapper False \<lparr>host = None, protocol = [], pathname = [],
        query = None, queryProto = True, isRelativeHost = False\<rparr>"
  have ok: "cache_ok asciiBuiltins ?W" by (rule exampleWrapper_cache_ok)
  have ds: "getProtocolDomains ?W ''geoshape:'' = Some [''maps.wikimedia.org'']"
    by (simp add: getProtocolDomains_def exampleWrapper_def newVegaWrapper_def removeColon_def)
  from testHost_matcher_flag [OF ok ds, of "Some ''maps.wikimedia.org''"]
  have "fst (testHost asciiBuiltins ?W ''geoshape:'' (Some ''maps.wikimedia.org''))
          = subdomainValidator [''maps.wikimedia.org''] False ''maps.wikimedia.org''"
    by (simp add: asciiBuiltins_def toStr_def)
  moreover have "subdomainValidator [''maps.wikimedia.org''] False ''maps.wikimedia.org''"
    by (simp add: subdomainValidator_def)
  ultimately show ?thesis using ok ds by simp
qed

text \<open>
  C3 as stated fails: with the same domain list configured for \<^verbatim>\<open>https\<close> and for
  \<^verbatim>\<open>geoshape\<close>, and a matcher that honours its flag, the subdomain
  \<^verbatim>\<open>maps.wikimedia.org\<close> of the entry \<^verbatim>\<open>wikimedia.org\<close> is accepted for \<^verbatim>\<open>https:\<close>
  and refused for \<^verbatim>\<open>geoshape:\<close>.
\<close>

theorem testHost_custom_scheme_counterexample:
  "fst (testHost asciiBuiltins sameListWrapper ''https:'' (Some ''maps.wikimedia.org''))
   \<and> \<not> fst (testHost asciiBuiltins sameListWrapper ''geoshape:'' (Some ''maps.wikimedia.org''))"
  by (simp add: testHost_def sameListWrapper_def newVegaWrapper_def getProtocolDomains_def
      removeColon_def asciiBuiltins_def subdomainValidator_def toStr_def Let_def)

section \<open>The allowlist comes first\<close>

text \<open>
  C1, as amended. For an untrusted caller, every request that \<^verbatim>\<open>sanitizeUrl\<close> lets
  through had its host accepted by \<^verbatim>\<open>sanitizeHost\<close>, and leaves with a transport scheme
  that is \<^verbatim>\<open>https:\<close> or \<^verbatim>\<open>http:\<close>. Unless the request is a fetch with a relative host
  for a tag that has an external service, the host of the result is the canonical (renamed)
  host that \<^verbatim>\<open>sanitizeHost\<close> returned at line 131, the scheme is the one it returned with
  it, and \<^verbatim>\<open>testHost\<close> accepts that host for that scheme. For such a fetch the host of
  the result is the first domain configured for the service, under its configured name;
  \<^verbatim>\<open>sanitizeHost\<close> accepts it, the scheme is the one \<^verbatim>\<open>sanitizeHost\<close> returns for it,
  \<^verbatim>\<open>testHost\<close> accepts for that scheme the host \<^verbatim>\<open>sanitizeHost\<close> returns (the renamed
  one), and \<^verbatim>\<open>testHost\<close> accepts the configured name for the scheme of the service. When
  \<^verbatim>\<open>sanitizeHost\<close> finds no scheme for the (renamed) host of the request,
  \<^verbatim>\<open>sanitizeUrl\<close> fails with the unlisted-host error, and no URL is produced.
\<close>

theorem untrusted_host_canonical:
  assumes ok: "cache_ok B self" and nt: "\<not> isTrusted self"
    and parse: "parseUrl self (opt\<lparr>url := repairUrl (url opt)\<rparr>) = u0"
  shows "(\<forall>r. fst (sanitizeUrl B self opt) = Inr r \<longrightarrow>
            (\<exists>sh. fst (sanitizeHost B self (host u0)) = Some sh
               \<and> (protocol (su_parts r) = ''https:'' \<or> protocol (su_parts r) = ''http:'')
               \<and> (case (if type opt \<noteq> ''open'' \<and> isRelativeHost u0
                         then serviceOf (protocol u0) else None) of
                     None \<Rightarrow>
                       host (su_parts r) = sh_host sh \<and> protocol (su_parts r) = sh_protocol sh
                       \<and> fst (testHost B self (protocol (su_parts r)) (host (su_parts r)))
                   | Some p \<Rightarrow>
                       (\<exists>ds s. getProtocolDomains self p = Some ds
                          \<and> host (su_parts r) = (case ds of [] \<Rightarrow> None | d # _ \<Rightarrow> Some d)
                          \<and> fst (sanitizeHost B self (host (su_parts r))) = Some s
                          \<and> protocol (su_parts r) = sh_protocol s
                          \<and> fst (testHost B self (sh_protocol s) (sh_host s))
                          \<and> fst (testHost B self p (host (su_parts r)))))))
         \<and> (fst (sanitizeHost B self (host u0)) = None \<longrightarrow>
              fst (sanitizeUrl B self opt) = Inl (HostNotWhitelisted (repairUrl (url opt))))"
proof (intro conjI allI impI)
  assume "fst (sanitizeHost B self (host u0)) = None"
  with parse show "fst (sanitizeUrl B self opt) = Inl (HostNotWhitelisted (repairUrl (url opt)))"
    using sanitizeUrl_unlisted [of B self opt] by simp
next
  fix r assume res: "fst (sanitizeUrl B self opt) = Inr r"
  let ?opt2 = "\<lambda>sh. opt\<lparr>url := repairUrl (url opt),
                           graphProtocol := Some (protocol (adoptHost sh u0))\<rparr>"
  let ?sel = "if type opt \<noteq> ''open'' \<and> isRelativeHost u0 then serviceOf (protocol u0) else None"
  have "\<exists>sh. fst (sanitizeHost B self (host u0)) = Some sh"
  proof (cases "fst (sanitizeHost B self (host u0))")
    case None
    with parse res sanitizeUrl_unlisted [of B self opt] show ?thesis by simp
  qed simp
  then obtain sh where hst: "fst (sanitizeHost B self (host u0)) = Some sh" ..
  with ok have rs: "resolve B self (host u0) = Some sh" by (simp add: sanitizeHost_fst)
  from resolve_Some [OF rs]
  have shp: "sh_protocol sh = ''https:'' \<or> sh_protocol sh = ''http:''"
    and sha: "accepts B self (sh_protocol sh) (sh_host sh)"
    by blast+
  have key: "case ?sel of
               None \<Rightarrow> host (su_parts r) = sh_host sh \<and> protocol (su_parts r) = sh_protocol sh
             | Some p \<Rightarrow>
                 (\<exists>ds s. getProtocolDomains self p = Some ds
                    \<and> host (su_parts r) = (case ds of [] \<Rightarrow> None | d # _ \<Rightarrow> Some d)
                    \<and> resolve B self (host (su_parts r)) = Some s
                    \<and> protocol (su_parts r) = sh_protocol s
                    \<and> accepts B self p (host (su_parts r)))"
  proof (cases "type opt = ''open''")
    case True
    from sanitizeUrl_open [OF parse hst True] res
    obtain u3 opt3 where "sanitizeOpen B (starts_with ''//'' (repairUrl (url opt)) \<or> protocol u0 = [])
                            sh (adoptHost sh u0) (?opt2 sh) = Inr (u3, opt3)"
      and "su_parts r = u3"
      by (auto simp: formatResult_def split: sum.splits)
    with sanitizeOpen_Inr [of B _ sh "adoptHost sh u0" "?opt2 sh" u3 opt3] True show ?thesis
      by simp
  next
    case False
    from sanitizeUrl_fetch [OF ok parse hst False]
    obtain self1 where ok1: "cache_ok B self1" and l1: "later self self1"
      and eq: "fst (sanitizeUrl B self opt)
                 = formatResult self (fst (sanitizeFetch B self1 sh (adoptHost sh u0) (?opt2 sh)))"
      by blast
    from eq res obtain u3 opt3
      where f: "fst (sanitizeFetch B self1 sh (adoptHost sh u0) (?opt2 sh)) = Inr (u3, opt3)"
        and r: "su_parts r = u3"
      by (auto simp: formatResult_def split: sum.splits)
    from nt l1 have nt1: "\<not> isTrusted self1" by (simp add: later_isTrusted)
    have sv: "serviceOf (protocol (adoptHost sh u0)) = serviceOf (protocol u0)"
      using shp by (auto simp: serviceOf_def)
    from sanitizeFetch_canonical [OF ok1 nt1 f, unfolded sv] r False show ?thesis
      by (auto simp: later_resolve [OF l1] later_accepts [OF l1] later_getProtocolDomains [OF l1]
            split: option.splits if_splits)
  qed
  have pr: "protocol (su_parts r) = ''https:'' \<or> protocol (su_parts r) = ''http:''"
  proof (cases ?sel)
    case None
    with key shp show ?thesis by simp
  next
    case (Some p)
    with key obtain s where "resolve B self (host (su_parts r)) = Some s"
      and "protocol (su_parts r) = sh_protocol s"
      by auto
    with resolve_Some [of B self "host (su_parts r)" s] show ?thesis by simp
  qed
  have shape: "case ?sel of
                 None \<Rightarrow>
                   host (su_parts r) = sh_host sh \<and> protocol (su_parts r) = sh_protocol sh
                   \<and> fst (testHost B self (protocol (su_parts r)) (host (su_parts r)))
               | Some p \<Rightarrow>
                   (\<exists>ds s. getProtocolDomains self p = Some ds
                      \<and> host (su_parts r) = (case ds of [] \<Rightarrow> None | d # _ \<Rightarrow> Some d)
                      \<and> fst (sanitizeHost B self (host (su_parts r))) = Some s
                      \<and> protocol (su_parts r) = sh_protocol s
                      \<and> fst (testHost B self (sh_protocol s) (sh_host s))
                      \<and> fst (testHost B self p (host (su_parts r))))"
  proof (cases ?sel)
    case None
    with key sha show ?thesis by (simp add: testHost_fst [OF ok])
  next
    case (Some p)
    with key obtain ds s where a: "getProtocolDomains self p = Some ds"
      "host (su_parts r) = (case ds of [] \<Rightarrow> None | d # _ \<Rightarrow> Some d)"
      "resolve B self (host (su_parts r)) = Some s"
      "protocol (su_parts r) = sh_protocol s"
      "accepts B self p (host (su_parts r))"
      by auto
    from resolve_Some [OF a(3)] have "accepts B self (sh_protocol s) (sh_host s)" by blast
    with a have "getProtocolDomains self p = Some ds
                      \<and> host (su_parts r) = (case ds of [] \<Rightarrow> None | d # _ \<Rightarrow> Some d)
                      \<and> fst (sanitizeHost B self (host (su_parts r))) = Some s
                      \<and> protocol (su_parts r) = sh_protocol s
                      \<and> fst (testHost B self (sh_protocol s) (sh_host s))
                      \<and> fst (testHost B self p (host (su_parts r)))"
      by (simp add: testHost_fst [OF ok] sanitizeHost_fst [OF ok])
    then have "\<exists>ds s. getProtocolDomains self p = Some ds
                      \<and> host (su_parts r) = (case ds of [] \<Rightarrow> None | d # _ \<Rightarrow> Some d)
                      \<and> fst (sanitizeHost B self (host (su_parts r))) = Some s
                      \<and> protocol (su_parts r) = sh_protocol s
                      \<and> fst (testHost B self (sh_protocol s) (sh_host s))
                      \<and> fst (testHost B self p (host (su_parts r)))"
      by blast
    with Some show ?thesis by simp
  qed
  from hst pr shape
  show "\<exists>sh. fst (sanitizeHost B self (host u0)) = Some sh
               \<and> (protocol (su_parts r) = ''https:'' \<or> protocol (su_parts r) = ''http:'')
               \<and> (case ?sel of
                     None \<Rightarrow>
                       host (su_parts r) = sh_host sh \<and> protocol (su_parts r) = sh_protocol sh
                       \<and> fst (testHost B self (protocol (su_parts r)) (host (su_parts r)))
                   | Some p \<Rightarrow>
                       (\<exists>ds s. getProtocolDomains self p = Some ds
                          \<and> host (su_parts r) = (case ds of [] \<Rightarrow> None | d # _ \<Rightarrow> Some d)
                          \<and> fst (sanitizeHost B self (host (su_parts r))) = Some s
                          \<and> protocol (su_parts r) = sh_protocol s
                          \<and> fst (testHost B self (sh_protocol s) (sh_host s))
                          \<and> fst (testHost B self p (host (su_parts r)))))"
    by blast
qed

text \<open>
  The theorem on three requests of an untrusted caller: the call
  \<^verbatim>\<open>wikiapi:///?action=query&list=allpages\<close> to an allowlisted wiki, which leaves with
  \<^verbatim>\<open>https:\<close> and the host that \<^verbatim>\<open>testHost\<close> accepts for it; the request
  \<^verbatim>\<open>geoshape:///?ids=Q1\<close> where the service is configured as \<^verbatim>\<open>maps.local\<close>, renamed
  to \<^verbatim>\<open>localhost\<close>; and a request to a host that is on no list.
\<close>

theorem untrusted_host_canonical_witness:
  "cache_ok asciiBuiltins (exampleWrapper False wikiapiParts)
   \<and> \<not> isTrusted (exampleWrapper False wikiapiParts)
   \<and> fst (sanitizeUrl asciiBuiltins (exampleWrapper False wikiapiParts)
            (exampleOpt ''get'' ''wikiapi:///?action=query&list=allpages''))
       = Inr \<lparr>su_url = ''https://en.wikipedia.org/w/api.php'',
              su_parts = \<lparr>host = Some ''en.wikipedia.org'', protocol = ''https:'',
                           pathname = ''/w/api.php'',
                           query = Some [(''action'', ''query''), (''list'', ''allpages''),
                                         (''format'', ''json''), (''formatversion'', ''2'')],
                           queryProto = True, isRelativeHost = True\<rparr>,
              su_opt = \<lparr>url = ''wikiapi:///?action=query&list=allpages'', type = ''get'',
                         graphProtocol = Some ''wikiapi:'', addCorsOrigin = True, headers = None\<rparr>\<rparr>
   \<and> fst (sanitizeHost asciiBuiltins (exampleWrapper False wikiapiParts) (Some ''en.wikipedia.org''))
       = Some \<lparr>sh_host = Some ''en.wikipedia.org'', sh_protocol = ''https:''\<rparr>
   \<and> fst (testHost asciiBuiltins (exampleWrapper False wikiapiParts) ''https:''
            (Some ''en.wikipedia.org''))
   \<and> cache_ok asciiBuiltins (aliasWrapper geoshapeParts)
   \<and> \<not> isTrusted (aliasWrapper geoshapeParts)
   \<and> (\<exists>r. fst (sanitizeUrl asciiBuiltins (aliasWrapper geoshapeParts)
                 (exampleOpt ''get'' ''geoshape:///?ids=Q1'')) = Inr r
           \<and> su_url r = ''http://maps.local/geoshape'')
   \<and> getProtocolDomains (aliasWrapper geoshapeParts) ''geoshape:'' = Some [''maps.local'']
   \<and> fst (sanitizeHost asciiBuiltins (aliasWrapper geoshapeParts) (Some ''maps.local''))
       = Some \<lparr>sh_host = Some ''localhost'', sh_protocol = ''http:''\<rparr>
   \<and> fst (testHost asciiBuiltins (aliasWrapper geoshapeParts) ''http:'' (Some ''localhost''))
   \<and> fst (testHost asciiBuiltins (aliasWrapper geoshapeParts) ''geoshape:'' (Some ''maps.local''))
   \<and> fst (sanitizeHost asciiBuiltins (exampleWrapper False (httpParts ''evil.example''))
            (Some ''evil.example'')) = None
   \<and> fst (sanitizeUrl asciiBuiltins (exampleWrapper False (httpParts ''evil.example''))
            (exampleOpt ''get'' ''http://evil.example/data.json''))
       = Inl (HostNotWhitelisted ''http://evil.example/data.json'')"
proof -
  let ?W = "exampleWrapper False wikiapiParts"
  let ?O = "exampleOpt ''get'' ''wikiapi:///?action=query&list=allpages''"
  let ?R = "\<lparr>su_url = ''https://en.wikipedia.org/w/api.php'',
              su_parts = \<lparr>host = Some ''en.wikipedia.org'', protocol = ''https:'',
                           pathname = ''/w/api.php'',
                           query = Some [(''action'', ''query''), (''list'', ''allpages''),
                                         (''format'', ''json''), (''formatversion'', ''2'')],
                           queryProto = True, isRelativeHost = True\<rparr>,
              su_opt = \<lparr>url = ''wikiapi:///?action=query&list=allpages'', type = ''get'',
                         graphProtocol = Some ''wikiapi:'', addCorsOrigin = True, headers = None\<rparr>\<rparr>"
  have ok: "cache_ok asciiBuiltins ?W" by (rule exampleWrapper_cache_ok)
  have nt: "\<not> isTrusted ?W" by (simp add: exampleWrapper_def newVegaWrapper_def)
  have parse: "parseUrl ?W (?O\<lparr>url := repairUrl (url ?O)\<rparr>) = wikiapiParts"
    by (simp add: exampleWrapper_def newVegaWrapper_def)
  have run: "fst (sanitizeUrl asciiBuiltins ?W ?O) = Inr ?R"
    by (simp add: model_defs)
  have sel: "(if type ?O \<noteq> ''open'' \<and> isRelativeHost wikiapiParts
              then serviceOf (protocol wikiapiParts) else None) = None"
    by (simp add: serviceOf_def wikiapiParts_def)
  have shv: "fst (sanitizeHost asciiBuiltins ?W (Some ''en.wikipedia.org''))
             = Some \<lparr>sh_host = Some ''en.wikipedia.org'', sh_protocol = ''https:''\<rparr>"
    by (simp add: model_defs)
  from untrusted_host_canonical [OF ok nt parse] run
  have "\<exists>sh. fst (sanitizeHost asciiBuiltins ?W (host wikiapiParts)) = Some sh
         \<and> (protocol (su_parts ?R) = ''https:'' \<or> protocol (su_parts ?R) = ''http:'')
         \<and> (case (if type ?O \<noteq> ''open'' \<and> isRelativeHost wikiapiParts
               then serviceOf (protocol wikiapiParts) else None) of
           None \<Rightarrow> host (su_parts ?R) = sh_host sh \<and> protocol (su_parts ?R) = sh_protocol sh
                   \<and> fst (testHost asciiBuiltins ?W (protocol (su_parts ?R)) (host (su_parts ?R)))
         | Some p \<Rightarrow>
             (\<exists>ds s. getProtocolDomains ?W p = Some ds
                \<and> host (su_parts ?R) = (case ds of [] \<Rightarrow> None | d # _ \<Rightarrow> Some d)
                \<and> fst (sanitizeHost asciiBuiltins ?W (host (su_parts ?R))) = Some s
                \<and> protocol (su_parts ?R) = sh_protocol s
                \<and> fst (testHost asciiBuiltins ?W (sh_protocol s) (sh_host s))
                \<and> fst (testHost asciiBuiltins ?W p (host (su_parts ?R)))))"
    by blast
  then have "fst (testHost asciiBuiltins ?W (protocol (su_parts ?R)) (host (su_parts ?R)))"
    unfolding sel by auto
  then have t: "fst (testHost asciiBuiltins ?W ''https:'' (Some ''en.wikipedia.org''))"
    by simp
  let ?A = "aliasWrapper geoshapeParts"
  let ?G = "exampleOpt ''get'' ''geoshape:///?ids=Q1''"
  have okA: "cache_ok asciiBuiltins ?A"
    by (rule cache_ok_empty) (simp add: aliasWrapper_def newVegaWrapper_def)
  have ntA: "\<not> isTrusted ?A" by (simp add: aliasWrapper_def newVegaWrapper_def)
  have parseA: "parseUrl ?A (?G\<lparr>url := repairUrl (url ?G)\<rparr>) = geoshapeParts"
    by (simp add: aliasWrapper_def newVegaWrapper_def)
  have runA: "\<exists>r. fst (sanitizeUrl asciiBuiltins ?A ?G) = Inr r
                  \<and> su_url r = ''http://maps.local/geoshape''"
    by (simp add: model_defs aliasWrapper_def geoshapeParts_def)
  then obtain rA where rA: "fst (sanitizeUrl asciiBuiltins ?A ?G) = Inr rA"
    and uA: "su_url rA = ''http://maps.local/geoshape''"
    by blast
  have hA: "host (su_parts rA) = Some ''maps.local''"
    using rA by (simp add: model_defs aliasWrapper_def geoshapeParts_def split: if_splits) auto
  have selA: "(if type ?G \<noteq> ''open'' \<and> isRelativeHost geoshapeParts
               then serviceOf (protocol geoshapeParts) else None) = Some ''geoshape:''"
    by (simp add: serviceOf_def geoshapeParts_def exampleOpt_def)
  from untrusted_host_canonical [OF okA ntA parseA] rA
  have "\<exists>sh. fst (sanitizeHost asciiBuiltins ?A (host geoshapeParts)) = Some sh
         \<and> (protocol (su_parts rA) = ''https:'' \<or> protocol (su_parts rA) = ''http:'')
         \<and> (case (if type ?G \<noteq> ''open'' \<and> isRelativeHost geoshapeParts
               then serviceOf (protocol geoshapeParts) else None) of
           None \<Rightarrow> host (su_parts rA) = sh_host sh \<and> protocol (su_parts rA) = sh_protocol sh
                   \<and> fst (testHost asciiBuiltins ?A (protocol (su_parts rA)) (host (su_parts rA)))
         | Some p \<Rightarrow>
             (\<exists>ds s. getProtocolDomains ?A p = Some ds
                \<and> host (su_parts rA) = (case ds of [] \<Rightarrow> None | d # _ \<Rightarrow> Some d)
                \<and> fst (sanitizeHost asciiBuiltins ?A (host (su_parts rA))) = Some s
                \<and> protocol (su_parts rA) = sh_protocol s
                \<and> fst (testHost asciiBuiltins ?A (sh_protocol s) (sh_host s))
                \<and> fst (testHost asciiBuiltins ?A p (host (su_parts rA)))))"
    by blast
  then obtain ds s where dA: "getProtocolDomains ?A ''geoshape:'' = Some ds"
    and sA: "fst (sanitizeHost asciiBuiltins ?A (Some ''maps.local'')) = Some s"
    and tA: "fst (testHost asciiBuiltins ?A (sh_protocol s) (sh_host s))"
    and gA: "fst (testHost asciiBuiltins ?A ''geoshape:'' (Some ''maps.local''))"
    unfolding selA hA by auto
  have sval: "fst (sanitizeHost asciiBuiltins ?A (Some ''maps.local''))
              = Some \<lparr>sh_host = Some ''localhost'', sh_protocol = ''http:''\<rparr>"
    by (simp add: model_defs aliasWrapper_def)
  have dval: "getProtocolDomains ?A ''geoshape:'' = Some [''maps.local'']"
    by (simp add: model_defs aliasWrapper_def)
  from sA sval tA have tA': "fst (testHost asciiBuiltins ?A ''http:'' (Some ''localhost''))"
    by auto
  let ?V = "exampleWrapper False (httpParts ''evil.example'')"
  let ?E = "exampleOpt ''get'' ''http://evil.example/data.json''"
  have okV: "cache_ok asciiBuiltins ?V" by (rule exampleWrapper_cache_ok)
  have ntV: "\<not> isTrusted ?V" by (simp add: exampleWrapper_def newVegaWrapper_def)
  have parseV: "parseUrl ?V (?E\<lparr>url := repairUrl (url ?E)\<rparr>) = httpParts ''evil.example''"
    by (simp add: exampleWrapper_def newVegaWrapper_def)
  have none: "fst (sanitizeHost asciiBuiltins ?V (Some ''evil.example'')) = None"
    by (simp add: model_defs)
  from untrusted_host_canonical [OF okV ntV parseV] none
  have "fst (sanitizeUrl asciiBuiltins ?V ?E) = Inl (HostNotWhitelisted (repairUrl (url ?E)))"
    by (simp add: httpParts_def)
  then have e: "fst (sanitizeUrl asciiBuiltins ?V ?E)
                = Inl (HostNotWhitelisted ''http://evil.example/data.json'')"
    by (simp add: model_defs)
  from ok nt run shv t okA ntA runA dval sval tA' gA none e show ?thesis by simp
qed

text \<open>
  C1 as stated fails on \<^verbatim>\<open>geoshape:///?ids=Q1\<close> where the service \<^verbatim>\<open>geoshape\<close> is
  configured as \<^verbatim>\<open>maps.local\<close> and the rename table maps \<^verbatim>\<open>maps.local\<close> to
  \<^verbatim>\<open>localhost\<close>, which is listed for \<^verbatim>\<open>http\<close>: the untrusted request leaves as
  \<^verbatim>\<open>http://maps.local/geoshape\<close>, and \<^verbatim>\<open>testHost\<close> accepts the host
  \<^verbatim>\<open>maps.local\<close> neither for \<^verbatim>\<open>http:\<close> nor for \<^verbatim>\<open>https:\<close>. The host that passed
  for \<^verbatim>\<open>http:\<close> is \<^verbatim>\<open>localhost\<close>, the one \<^verbatim>\<open>sanitizeHost\<close> returns.
\<close>

theorem alias_service_host_counterexample:
  "\<not> isTrusted (aliasWrapper geoshapeParts)
   \<and> fst (sanitizeUrl asciiBuiltins (aliasWrapper geoshapeParts)
            (exampleOpt ''get'' ''geoshape:///?ids=Q1''))
       = Inr \<lparr>su_url = ''http://maps.local/geoshape'',
              su_parts = \<lparr>host = Some ''maps.local'', protocol = ''http:'',
                           pathname = ''/geoshape'', query = Some [(''ids'', ''Q1'')],
                           queryProto = True, isRelativeHost = True\<rparr>,
              su_opt = \<lparr>url = ''geoshape:///?ids=Q1'', type = ''get'',
                         graphProtocol = Some ''geoshape:'', addCorsOrigin = False,
                         headers = None\<rparr>\<rparr>
   \<and> \<not> fst (testHost asciiBuiltins (aliasWrapper geoshapeParts) ''http:'' (Some ''maps.local''))
   \<and> \<not> fst (testHost asciiBuiltins (aliasWrapper geoshapeParts) ''https:'' (Some ''maps.local''))
   \<and> fst (sanitizeHost asciiBuiltins (aliasWrapper geoshapeParts) (Some ''maps.local''))
       = Some \<lparr>sh_host = Some ''localhost'', sh_protocol = ''http:''\<rparr>"
  by (simp add: model_defs aliasWrapper_def geoshapeParts_def)

text \<open>
  C2. A normal fetch whose host is accepted and whose transport scheme, once resolved
  (lines 136-142), is \<^verbatim>\<open>http:\<close> or \<^verbatim>\<open>https:\<close>: for an untrusted caller
  \<^verbatim>\<open>sanitizeUrl\<close> fails with the untrusted-protocol error; for a trusted caller it
  succeeds and the parts are the resolved ones, with the pathname and the query of the
  parser and the resolved scheme, and the URL is the formatter's for these parts.
\<close>

theorem http_requires_trust:
  assumes ok: "cache_ok B self"
    and parse: "parseUrl self (opt\<lparr>url := repairUrl (url opt)\<rparr>) = u0"
    and hst: "fst (sanitizeHost B self (host u0)) = Some sh"
    and ty: "type opt \<noteq> ''open''"
    and pr: "protocol (adoptHost sh u0) = ''http:'' \<or> protocol (adoptHost sh u0) = ''https:''"
  shows "(\<not> isTrusted self \<longrightarrow> fst (sanitizeUrl B self opt) = Inl UntrustedProtocol)
         \<and> (isTrusted self \<longrightarrow>
              (\<exists>r. fst (sanitizeUrl B self opt) = Inr r
                   \<and> su_parts r = adoptHost sh u0
                   \<and> pathname (su_parts r) = pathname u0
                   \<and> query (su_parts r) = query u0
                   \<and> protocol (su_parts r) = protocol (adoptHost sh u0)
                   \<and> su_url r = formatUrl self (adoptHost sh u0) (su_opt r)))"
proof -
  from sanitizeUrl_fetch [OF ok parse hst ty]
  obtain self1 where l1: "later self self1"
    and eq: "fst (sanitizeUrl B self opt)
               = formatResult self (fst (sanitizeFetch B self1 sh (adoptHost sh u0)
                   (opt\<lparr>url := repairUrl (url opt),
                        graphProtocol := Some (protocol (adoptHost sh u0))\<rparr>)))"
    by blast
  show ?thesis
    unfolding eq sanitizeFetch_http [OF pr] later_isTrusted [OF l1]
    by (simp add: formatResult_def)
qed

text \<open>
  The theorem on \<^verbatim>\<open>http://wiki.local/data.json\<close>, whose host the rename table maps to
  the allowlisted \<^verbatim>\<open>localhost\<close>: refused for an untrusted caller, kept for a trusted one.
\<close>

theorem http_requires_trust_witness:
  "cache_ok asciiBuiltins (exampleWrapper False (httpParts ''wiki.local''))
   \<and> fst (sanitizeHost asciiBuiltins (exampleWrapper False (httpParts ''wiki.local''))
            (Some ''wiki.local''))
       = Some \<lparr>sh_host = Some ''localhost'', sh_protocol = ''http:''\<rparr>
   \<and> fst (sanitizeUrl asciiBuiltins (exampleWrapper False (httpParts ''wiki.local''))
            (exampleOpt ''get'' ''http://wiki.local/data.json'')) = Inl UntrustedProtocol
   \<and> (\<exists>r. fst (sanitizeUrl asciiBuiltins (exampleWrapper True (httpParts ''wiki.local''))
                 (exampleOpt ''get'' ''http://wiki.local/data.json'')) = Inr r
           \<and> su_parts r = \<lparr>host = Some ''localhost'', protocol = ''http:'',
                              pathname = ''/data.json'', query = Some [], queryProto = True, isRelativeHost = False\<rparr>)"
proof -
  let ?P = "httpParts ''wiki.local''"
  let ?O = "exampleOpt ''get'' ''http://wiki.local/data.json''"
  let ?sh = "\<lparr>sh_host = Some ''localhost'', sh_protocol = ''http:''\<rparr>"
  have ty: "type ?O \<noteq> ''open''" by (simp add: exampleOpt_def)
  have pr: "protocol (adoptHost ?sh ?P) = ''http:'' \<or> protocol (adoptHost ?sh ?P) = ''https:''"
    by (simp add: httpParts_def)
  have ad: "adoptHost ?sh ?P = \<lparr>host = Some ''localhost'', protocol = ''http:'',
                              pathname = ''/data.json'', query = Some [], queryProto = True, isRelativeHost = False\<rparr>"
    by (simp add: adoptHost_def httpParts_def)
  have ok: "cache_ok asciiBuiltins (exampleWrapper t ?P)" for t by (rule exampleWrapper_cache_ok)
  have parse: "parseUrl (exampleWrapper t ?P) (?O\<lparr>url := repairUrl (url ?O)\<rparr>) = ?P" for t
    by (simp add: exampleWrapper_def newVegaWrapper_def)
  have hst: "fst (sanitizeHost asciiBuiltins (exampleWrapper t ?P) (host ?P)) = Some ?sh" for t
    by (simp add: model_defs)
  have hst': "fst (sanitizeHost asciiBuiltins (exampleWrapper False ?P) (Some ''wiki.local'')) = Some ?sh"
    using hst [of False] by (simp add: httpParts_def)
  have "fst (sanitizeUrl asciiBuiltins (exampleWrapper False ?P) ?O) = Inl UntrustedProtocol"
    using http_requires_trust [OF ok parse hst ty pr, of False] by (simp add: exampleWrapper_def newVegaWrapper_def)
  moreover have "\<exists>r. fst (sanitizeUrl asciiBuiltins (exampleWrapper True ?P) ?O) = Inr r
                    \<and> su_parts r = adoptHost ?sh ?P"
    using http_requires_trust [OF ok parse hst ty pr, of True] by (auto simp: exampleWrapper_def newVegaWrapper_def)
  ultimately show ?thesis using ok [of False] hst' ad by simp
qed

text \<open>
  C9. Also for a trusted caller, an \<^verbatim>\<open>http:\<close> or \<^verbatim>\<open>https:\<close> normal fetch passes the
  allowlist first: when \<^verbatim>\<open>sanitizeHost\<close> accepts the host under no scheme the request
  fails with the unlisted-host error, and a request that succeeds carries the canonical
  host of a successful \<^verbatim>\<open>sanitizeHost\<close>, which \<^verbatim>\<open>testHost\<close> accepts for the scheme
  \<^verbatim>\<open>sanitizeHost\<close> found.
\<close>

theorem trusted_still_allowlisted:
  assumes ok: "cache_ok B self" and tr: "isTrusted self"
    and parse: "parseUrl self (opt\<lparr>url := repairUrl (url opt)\<rparr>) = u0"
    and ty: "type opt \<noteq> ''open''"
    and pr: "protocol u0 = ''http:'' \<or> protocol u0 = ''https:''"
  shows "(fst (sanitizeHost B self (host u0)) = None \<longrightarrow>
            fst (sanitizeUrl B self opt) = Inl (HostNotWhitelisted (repairUrl (url opt))))
         \<and> (\<forall>r. fst (sanitizeUrl B self opt) = Inr r \<longrightarrow>
               (\<exists>sh. fst (sanitizeHost B self (host u0)) = Some sh
                     \<and> host (su_parts r) = sh_host sh
                     \<and> fst (testHost B self (sh_protocol sh) (sh_host sh))))"
proof (intro conjI allI impI)
  assume "fst (sanitizeHost B self (host u0)) = None"
  with parse show "fst (sanitizeUrl B self opt) = Inl (HostNotWhitelisted (repairUrl (url opt)))"
    using sanitizeUrl_unlisted [of B self opt] by simp
next
  fix r assume res: "fst (sanitizeUrl B self opt) = Inr r"
  have "\<exists>sh. fst (sanitizeHost B self (host u0)) = Some sh"
  proof (cases "fst (sanitizeHost B self (host u0))")
    case None
    with parse res sanitizeUrl_unlisted [of B self opt] show ?thesis by simp
  qed simp
  then obtain sh where hst: "fst (sanitizeHost B self (host u0)) = Some sh" ..
  with ok have "resolve B self (host u0) = Some sh" by (simp add: sanitizeHost_fst)
  from resolve_Some [OF this] ok
  have acc: "fst (testHost B self (sh_protocol sh) (sh_host sh))" by (auto simp: testHost_fst)
  from pr have pr': "protocol (adoptHost sh u0) = ''http:'' \<or> protocol (adoptHost sh u0) = ''https:''"
    by auto
  from sanitizeUrl_fetch [OF ok parse hst ty]
  obtain self1 where l1: "later self self1"
    and eq: "fst (sanitizeUrl B self opt)
               = formatResult self (fst (sanitizeFetch B self1 sh (adoptHost sh u0)
                   (opt\<lparr>url := repairUrl (url opt),
                        graphProtocol := Some (protocol (adoptHost sh u0))\<rparr>)))"
    by blast
  from res have "su_parts r = adoptHost sh u0"
    unfolding eq sanitizeFetch_http [OF pr'] later_isTrusted [OF l1]
    by (auto simp: formatResult_def split: if_splits)
  with hst acc
  show "\<exists>sh. fst (sanitizeHost B self (host u0)) = Some sh \<and> host (su_parts r) = sh_host sh
             \<and> fst (testHost B self (sh_protocol sh) (sh_host sh))"
    by simp
qed

text \<open>
  The theorem on \<^verbatim>\<open>http://evil.example/data.json\<close> from a trusted caller: the host is on
  no list and the request fails with the unlisted-host error.
\<close>

theorem trusted_still_allowlisted_witness:
  "cache_ok asciiBuiltins (exampleWrapper True (httpParts ''evil.example''))
   \<and> isTrusted (exampleWrapper True (httpParts ''evil.example''))
   \<and> fst (sanitizeHost asciiBuiltins (exampleWrapper True (httpParts ''evil.example''))
            (Some ''evil.example'')) = None
   \<and> fst (sanitizeUrl asciiBuiltins (exampleWrapper True (httpParts ''evil.example''))
            (exampleOpt ''get'' ''http://evil.example/data.json''))
       = Inl (HostNotWhitelisted ''http://evil.example/data.json'')"
proof -
  let ?P = "httpParts ''evil.example''"
  let ?W = "exampleWrapper True ?P"
  let ?O = "exampleOpt ''get'' ''http://evil.example/data.json''"
  have ok: "cache_ok asciiBuiltins ?W" by (rule exampleWrapper_cache_ok)
  have tr: "isTrusted ?W" by (simp add: exampleWrapper_def newVegaWrapper_def)
  have parse: "parseUrl ?W (?O\<lparr>url := repairUrl (url ?O)\<rparr>) = ?P"
    by (simp add: exampleWrapper_def newVegaWrapper_def)
  have ty: "type ?O \<noteq> ''open''" by (simp add: exampleOpt_def)
  have pr: "protocol ?P = ''http:'' \<or> protocol ?P = ''https:''" by (simp add: httpParts_def)
  have none: "fst (sanitizeHost asciiBuiltins ?W (host ?P)) = None"
    by (simp add: model_defs)
  from trusted_still_allowlisted [OF ok tr parse ty pr] none
  have "fst (sanitizeUrl asciiBuiltins ?W ?O) = Inl (HostNotWhitelisted (repairUrl (url ?O)))"
    by blast
  then have "fst (sanitizeUrl asciiBuiltins ?W ?O)
             = Inl (HostNotWhitelisted ''http://evil.example/data.json'')"
    by (simp add: model_defs)
  with ok tr none show ?thesis by (simp add: httpParts_def)
qed

section \<open>Titles\<close>


lemma sanitizeOpen_relative:
  assumes dec: "decodeURIComponent B (pathname u) = Some d"
    and rel: "protocol u = ''wikititle:''
              \<or> ((protocol u = ''http:'' \<or> protocol u = ''https:'') \<and> isRel)"
  shows "sanitizeOpen B isRel sh u opt
         = openTitle B sh u
             (if protocol u = ''wikititle:'' then opt else opt\<lparr>graphProtocol := Some ''wikititle''\<rparr>)
             (trim B d)"
  using assms by (auto simp: sanitizeOpen_def Let_def)



lemma re_title_empty: "\<not> re_title []" "\<not> re_title ''/''"
  by (simp_all add: re_title_def)

lemma openTitle_bad_title:
  assumes "\<not> re_title d"
  shows "openTitle B sh u opt d
         = Inl (case query u of None \<Rightarrow> TypeError
                | Some q \<Rightarrow> if q \<noteq> [] then QueryNotAllowed else InvalidTitle ''wikititle'')"
  using assms by (simp add: openTitle_def split: option.splits)


lemma sanitizeFetch_wikiraw_bad_title:
  assumes "protocol u = ''wikiraw:''" and "decodeURIComponent B (pathname u) = Some d"
    and "\<not> re_title d"
  shows "sanitizeFetch B self sh u opt = (Inl (InvalidTitle ''wikiraw''), self)"
  using assms by (simp add: sanitizeFetch_def)

lemma sanitizeFetch_tabular_bad_title:
  assumes "protocol u = ''tabular:'' \<or> protocol u = ''tabularinfo:''"
    and "decodeURIComponent B (pathname u) = Some d" and "\<not> re_title d"
  shows "sanitizeFetch B self sh u opt = (Inl (InvalidTitle (protocol u)), self)"
  using assms by (auto simp: sanitizeFetch_def)




text \<open>
  C7 at the request \<^verbatim>\<open>wikititle:///A b c\<close> of the "open" action: the translation
  succeeds with the scheme of the allowlisted host, and its pathname is
  \<^verbatim>\<open>/wiki/A_b%20c\<close>: line 177 replaces the first space only, and the second one is
  percent-encoded. With every space turned into an underscore the pathname would be
  \<^verbatim>\<open>/wiki/A_b_c\<close>.
\<close>

theorem open_title_second_space_kept:
  "(\<exists>r. fst (sanitizeUrl asciiBuiltins (exampleWrapper False (titleParts ''/A b c'' []))
              (exampleOpt ''open'' ''wikititle:///A b c'')) = Inr r
        \<and> pathname (su_parts r) = ''/wiki/A_b%20c''
        \<and> protocol (su_parts r) = ''https:'')
   \<and> ''/wiki/'' @ percent_encode (map (\<lambda>c. if c = CHR '' '' then CHR ''_'' else c) ''A b c'')
       = ''/wiki/A_b_c''"
  by (simp add: model_defs)

text \<open>
  C10, as amended. With an allowlisted host and a pathname that decodes: a
  \<^verbatim>\<open>wikiraw:\<close>, \<^verbatim>\<open>tabular:\<close> or \<^verbatim>\<open>tabularinfo:\<close> fetch whose decoded pathname is
  empty or \<^verbatim>\<open>/\<close> fails with the invalid-title error (under the tag \<^verbatim>\<open>wikiraw\<close>, or
  the protocol of the request). An "open"-action \<^verbatim>\<open>wikititle:\<close> request whose decoded,
  trimmed pathname is empty or \<^verbatim>\<open>/\<close> fails too: with the invalid-title error when its
  query is empty, with the query error when it carries query parameters (line 171 comes
  before line 174), and with a TypeError when it has no query object.
\<close>

theorem empty_title_rejected:
  assumes ok: "cache_ok B self"
    and parse: "parseUrl self (opt\<lparr>url := repairUrl (url opt)\<rparr>) = u0"
    and hst: "fst (sanitizeHost B self (host u0)) = Some sh"
    and dec: "decodeURIComponent B (pathname u0) = Some d"
  shows "(type opt \<noteq> ''open'' \<and> protocol u0 = ''wikiraw:'' \<and> (d = [] \<or> d = ''/'') \<longrightarrow>
            fst (sanitizeUrl B self opt) = Inl (InvalidTitle ''wikiraw''))
         \<and> (type opt \<noteq> ''open'' \<and> (protocol u0 = ''tabular:'' \<or> protocol u0 = ''tabularinfo:'')
              \<and> (d = [] \<or> d = ''/'') \<longrightarrow>
              fst (sanitizeUrl B self opt) = Inl (InvalidTitle (protocol u0)))
         \<and> (type opt = ''open'' \<and> protocol u0 = ''wikititle:''
              \<and> (trim B d = [] \<or> trim B d = ''/'') \<longrightarrow>
              fst (sanitizeUrl B self opt)
              = Inl (case query u0 of
                       None \<Rightarrow> TypeError
                     | Some q \<Rightarrow> if q \<noteq> [] then QueryNotAllowed else InvalidTitle ''wikititle''))"
proof (intro conjI impI)
  assume a: "type opt \<noteq> ''open'' \<and> protocol u0 = ''wikiraw:'' \<and> (d = [] \<or> d = ''/'')"
  then have ty: "type opt \<noteq> ''open''" and bad: "\<not> re_title d"
    using re_title_empty by auto
  from sanitizeUrl_fetch [OF ok parse hst ty] obtain self1
    where eq: "fst (sanitizeUrl B self opt)
               = formatResult self (fst (sanitizeFetch B self1 sh (adoptHost sh u0)
                   (opt\<lparr>url := repairUrl (url opt),
                        graphProtocol := Some (protocol (adoptHost sh u0))\<rparr>)))"
    by blast
  show "fst (sanitizeUrl B self opt) = Inl (InvalidTitle ''wikiraw'')"
    unfolding eq
    by (subst sanitizeFetch_wikiraw_bad_title [where d = d]) (use a dec bad in \<open>simp_all add: formatResult_def\<close>)
next
  assume a: "type opt \<noteq> ''open'' \<and> (protocol u0 = ''tabular:'' \<or> protocol u0 = ''tabularinfo:'')
             \<and> (d = [] \<or> d = ''/'')"
  then have ty: "type opt \<noteq> ''open''" and bad: "\<not> re_title d"
    using re_title_empty by auto
  from a have pr: "protocol (adoptHost sh u0) = protocol u0" by auto
  from sanitizeUrl_fetch [OF ok parse hst ty] obtain self1
    where eq: "fst (sanitizeUrl B self opt)
               = formatResult self (fst (sanitizeFetch B self1 sh (adoptHost sh u0)
                   (opt\<lparr>url := repairUrl (url opt),
                        graphProtocol := Some (protocol (adoptHost sh u0))\<rparr>)))"
    by blast
  show "fst (sanitizeUrl B self opt) = Inl (InvalidTitle (protocol u0))"
    unfolding eq
    by (subst sanitizeFetch_tabular_bad_title [where d = d])
       (use a dec bad pr in \<open>auto simp add: formatResult_def\<close>)
next
  assume a: "type opt = ''open'' \<and> protocol u0 = ''wikititle:''
             \<and> (trim B d = [] \<or> trim B d = ''/'')"
  then have ty: "type opt = ''open''" and bad: "\<not> re_title (trim B d)"
    using re_title_empty by auto
  let ?u = "adoptHost sh u0"
  have dec': "decodeURIComponent B (pathname ?u) = Some d" using dec by simp
  have rel: "protocol ?u = ''wikititle:''
             \<or> ((protocol ?u = ''http:'' \<or> protocol ?u = ''https:'') \<and> isRel)" for isRel
    using a by simp
  show "fst (sanitizeUrl B self opt)
        = Inl (case query u0 of
                 None \<Rightarrow> TypeError
               | Some q \<Rightarrow> if q \<noteq> [] then QueryNotAllowed else InvalidTitle ''wikititle'')"
    unfolding sanitizeUrl_open [OF parse hst ty]
    by (subst sanitizeOpen_relative [OF dec' rel])
       (simp add: openTitle_bad_title [OF bad] formatResult_def)
qed

text \<open>
  The theorem on \<^verbatim>\<open>wikiraw:///\<close>, \<^verbatim>\<open>tabular:///\<close> and the "open"-action
  \<^verbatim>\<open>wikititle:///\<close>.
\<close>

theorem empty_title_rejected_witness:
  "cache_ok asciiBuiltins (exampleWrapper False ((titleParts ''/'' [])\<lparr>protocol := ''wikiraw:''\<rparr>))
   \<and> decodeURIComponent asciiBuiltins ''/'' = Some ''/''
   \<and> trim asciiBuiltins ''/'' = ''/''
   \<and> fst (sanitizeUrl asciiBuiltins
            (exampleWrapper False ((titleParts ''/'' [])\<lparr>protocol := ''wikiraw:''\<rparr>))
            (exampleOpt ''get'' ''wikiraw:///'')) = Inl (InvalidTitle ''wikiraw'')
   \<and> fst (sanitizeUrl asciiBuiltins
            (exampleWrapper False ((titleParts ''/'' [])\<lparr>protocol := ''tabular:''\<rparr>))
            (exampleOpt ''get'' ''tabular:///'')) = Inl (InvalidTitle ''tabular:'')
   \<and> fst (sanitizeUrl asciiBuiltins (exampleWrapper False (titleParts ''/'' []))
            (exampleOpt ''open'' ''wikititle:///'')) = Inl (InvalidTitle ''wikititle'')"
proof -
  let ?sh = "\<lparr>sh_host = Some ''en.wikipedia.org'', sh_protocol = ''https:''\<rparr>"
  have ok: "cache_ok asciiBuiltins (exampleWrapper False P)" for P
    by (rule exampleWrapper_cache_ok)
  have parse: "parseUrl (exampleWrapper False P) (x\<lparr>url := repairUrl (url x)\<rparr>) = P" for P x
    by (simp add: exampleWrapper_def newVegaWrapper_def)
  have hst: "fst (sanitizeHost asciiBuiltins (exampleWrapper False ((titleParts ''/'' [])\<lparr>protocol := p\<rparr>))
                (host ((titleParts ''/'' [])\<lparr>protocol := p\<rparr>))) = Some ?sh" for p
    by (simp add: model_defs)
  have dec: "decodeURIComponent asciiBuiltins (pathname ((titleParts ''/'' [])\<lparr>protocol := p\<rparr>)) = Some ''/''"
    for p by (simp add: model_defs)
  have tr: "trim asciiBuiltins ''/'' = ''/''" by (simp add: model_defs)
  have same: "(titleParts ''/'' [])\<lparr>protocol := ''wikititle:''\<rparr> = titleParts ''/'' []"
    by (simp add: titleParts_def)
  have "fst (sanitizeUrl asciiBuiltins
            (exampleWrapper False ((titleParts ''/'' [])\<lparr>protocol := ''wikiraw:''\<rparr>))
            (exampleOpt ''get'' ''wikiraw:///'')) = Inl (InvalidTitle ''wikiraw'')"
    using empty_title_rejected [OF ok parse [where x = "exampleOpt ''get'' ''wikiraw:///''"] hst [of "''wikiraw:''"] dec]
    by (simp add: exampleOpt_def)
  moreover
  have "fst (sanitizeUrl asciiBuiltins
            (exampleWrapper False ((titleParts ''/'' [])\<lparr>protocol := ''tabular:''\<rparr>))
            (exampleOpt ''get'' ''tabular:///'')) = Inl (InvalidTitle ''tabular:'')"
    using empty_title_rejected [OF ok parse [where x = "exampleOpt ''get'' ''tabular:///''"] hst [of "''tabular:''"] dec]
    by (simp add: exampleOpt_def)
  moreover
  have "fst (sanitizeUrl asciiBuiltins (exampleWrapper False (titleParts ''/'' []))
            (exampleOpt ''open'' ''wikititle:///'')) = Inl (InvalidTitle ''wikititle'')"
    using empty_title_rejected [OF ok parse [where x = "exampleOpt ''open'' ''wikititle:///''"] hst [of "''wikititle:''"] dec] tr
    by (simp add: exampleOpt_def same) (simp add: titleParts_def)
  ultimately show ?thesis using ok dec [of "''wikiraw:''"] tr by (simp add: titleParts_def)
qed

text \<open>
  C10 as stated fails on the "open"-action request \<^verbatim>\<open>wikititle:///?action=edit\<close>: its
  title is empty, and the error is the one of the query parameters, not the invalid-title
  error.
\<close>

theorem open_empty_title_with_query_counterexample:
  "ascii_trim ''/'' = ''/''
   \<and> fst (sanitizeUrl asciiBuiltins (exampleWrapper False (titleParts ''/'' [(''action'', ''edit'')]))
            (exampleOpt ''open'' ''wikititle:///?action=edit'')) = Inl QueryNotAllowed
   \<and> QueryNotAllowed \<noteq> InvalidTitle ''wikititle''"
  by (simp add: model_defs)

section \<open>Map snapshots\<close>

lemma re_style_length: "re_style s \<Longrightarrow> length s = 1"
  by (auto simp: re_style_def split: list.splits)











text \<open>
  C6 at the style \<^verbatim>\<open>osm-intl\<close>, the default style itself, given with parameters that
  are in order: every character is of the class \<^verbatim>\<open>[-_0-9a-z]\<close> and the translation fails
  with the error of the style, since the expression of line 327 matches one character only.
  A style of one character passes and is the first component of the path.
\<close>

theorem mapsnapshot_style_osm_intl_rejected:
  "fst (sanitizeUrl asciiBuiltins
          (exampleWrapper False (snapshotParts (Some (snapshotQuery ''500'' @ [(''style'', ''osm-intl'')]))))
          (exampleOpt ''get''
             ''mapsnapshot:///?width=500&height=100&zoom=5&lat=10&lon=10&style=osm-intl''))
     = Inl InvalidStyle
   \<and> (\<exists>r. fst (sanitizeUrl asciiBuiltins
                 (exampleWrapper False (snapshotParts (Some (snapshotQuery ''500'' @ [(''style'', ''a'')]))))
                 (exampleOpt ''get''
                    ''mapsnapshot:///?width=500&height=100&zoom=5&lat=10&lon=10&style=a''))
             = Inr r
           \<and> pathname (su_parts r) = ''/img/a,5,10,10,500x100@2x.png'')"
  by (simp add: model_defs more_defs)

section \<open>Response normalizer: the envelope of the API\<close>

text \<open>
  C8, as amended. A payload normalized under the tag \<^verbatim>\<open>wikiapi:\<close> (no error from the
  transport) is parsed as JSON; a payload that does not parse fails with the parser's
  error, and the value \<^verbatim>\<open>null\<close> with a TypeError. If the parsed value has an
  \<^verbatim>\<open>error\<close> property that is truthy, normalization fails with an error carrying the
  serialized property, the callback receives that error and no data, and nothing is
  logged. Otherwise the parsed value is returned with no error; its \<^verbatim>\<open>warnings\<close>
  property is handed to the logger if it is truthy, and never makes the request fail.
\<close>

theorem wikiapi_normalization:
  assumes tag: "graphProtocol opt = Some ''wikiapi:''"
  shows "(JSON_parse B raw = None \<longrightarrow>
            dataParser B U None raw opt = ((Some SyntaxError, Undefined), []))
         \<and> (JSON_parse B raw = Some Null \<longrightarrow>
              dataParser B U None raw opt = ((Some TypeError, Undefined), []))
         \<and> (\<forall>d er. JSON_parse B raw = Some d \<and> getProp d ''error'' = Inr er \<and> truthy er \<longrightarrow>
              dataParser B U None raw opt
              = ((Some (ApiError (JSON_stringify B er)), Undefined), []))
         \<and> (\<forall>d er w. JSON_parse B raw = Some d \<and> getProp d ''error'' = Inr er \<and> \<not> truthy er
                \<and> getProp d ''warnings'' = Inr w \<longrightarrow>
              dataParser B U None raw opt
              = ((None, d), if truthy w then [''API warnings: '' @ JSON_stringify B w] else []))"
  using tag
  by (auto simp: dataParser_def parseDataOrThrow_def parseMWApiResponse_def getProp_def Let_def)

text \<open>
  The theorem on two payloads: an object with the error \<^verbatim>\<open>"badtoken"\<close>, and an object
  with a warning, which is logged and returned.
\<close>

theorem wikiapi_normalization_witness:
  "graphProtocol wikiapiOpt = Some ''wikiapi:''
   \<and> dataParser (parsingTo (Obj [(''error'', Str ''badtoken'')])) plainUnwrappers None ''payload''
        wikiapiOpt
       = ((Some (ApiError (CHR 0x22 # ''badtoken'' @ [CHR 0x22])), Undefined), [])
   \<and> dataParser (parsingTo (Obj [(''warnings'', Str ''deprecated''), (''batchcomplete'', Bool True)]))
        plainUnwrappers None ''payload'' wikiapiOpt
       = ((None, Obj [(''warnings'', Str ''deprecated''), (''batchcomplete'', Bool True)]),
          [''API warnings: '' @ CHR 0x22 # ''deprecated'' @ [CHR 0x22]])"
proof -
  have tag: "graphProtocol wikiapiOpt = Some ''wikiapi:''" by (simp add: wikiapiOpt_def)
  let ?e = "Obj [(''error'', Str ''badtoken'')]"
  let ?w = "Obj [(''warnings'', Str ''deprecated''), (''batchcomplete'', Bool True)]"
  have e: "JSON_parse (parsingTo ?e) ''payload'' = Some ?e
           \<and> getProp ?e ''error'' = Inr (Str ''badtoken'') \<and> truthy (Str ''badtoken'')"
    by (simp add: parsingTo_def getProp_def)
  have w: "JSON_parse (parsingTo ?w) ''payload'' = Some ?w
           \<and> getProp ?w ''error'' = Inr Undefined \<and> \<not> truthy Undefined
           \<and> getProp ?w ''warnings'' = Inr (Str ''deprecated'')"
    by (simp add: parsingTo_def getProp_def)
  from wikiapi_normalization [OF tag, of "parsingTo ?e" "''payload''" plainUnwrappers] e
  have "dataParser (parsingTo ?e) plainUnwrappers None ''payload'' wikiapiOpt
        = ((Some (ApiError (JSON_stringify (parsingTo ?e) (Str ''badtoken''))), Undefined), [])"
    by blast
  moreover
  from wikiapi_normalization [OF tag, of "parsingTo ?w" "''payload''" plainUnwrappers] w
  have "dataParser (parsingTo ?w) plainUnwrappers None ''payload'' wikiapiOpt
        = ((None, ?w), if truthy (Str ''deprecated'')
                       then [''API warnings: '' @ JSON_stringify (parsingTo ?w) (Str ''deprecated'')]
                       else [])"
    by blast
  ultimately show ?thesis using tag by (simp add: parsingTo_def)
qed

text \<open>
  C8 as stated fails on an object that has both fields with falsy values, such as
  \<^verbatim>\<open>{"error": false, "warnings": ""}\<close>: normalization succeeds although the object has
  an error field, and nothing is logged although it has a warnings field.
\<close>

theorem wikiapi_falsy_error_counterexample:
  "getProp (Obj [(''error'', Bool False), (''warnings'', Str [])]) ''error'' = Inr (Bool False)
   \<and> getProp (Obj [(''error'', Bool False), (''warnings'', Str [])]) ''warnings'' = Inr (Str [])
   \<and> dataParser (parsingTo (Obj [(''error'', Bool False), (''warnings'', Str [])])) plainUnwrappers
        None ''payload'' wikiapiOpt
       = ((None, Obj [(''error'', Bool False), (''warnings'', Str [])]), [])"
  by (simp add: dataParser_def parseDataOrThrow_def parseMWApiResponse_def getProp_def
      parsingTo_def wikiapiOpt_def exampleOpt_def)

end
